theory Spec2Isabelle
  imports Complex_Main "HOL-Library.Word"
begin

section \<open>Scalar values and the symbolic expression model\<close>

text \<open>
  Floating-point immediates. A C++ \<^verbatim>\<open>float\<close> or \<^verbatim>\<open>double\<close> is modelled by the
  value it denotes: a finite real, the negative zero, an infinity or a NaN. The
  comparison \<^verbatim>\<open>imm == c\<close> against a finite literal \<open>c\<close> is \<open>float_eq\<close>: both zeros
  compare equal to \<open>0\<close>, and an infinity or a NaN equals no finite literal.
\<close>

datatype fval = Fin real | NegZero | PInf | NInf | NaN

fun float_eq :: "fval \<Rightarrow> real \<Rightarrow> bool" where
  "float_eq (Fin r) c = (r = c)"
| "float_eq NegZero c = (c = 0)"
| "float_eq PInf c = False"
| "float_eq NInf c = False"
| "float_eq NaN c = False"

text \<open>Conversion of a 64-bit integer to \<^verbatim>\<open>int32_t\<close> keeps the low 32 bits (two's complement).\<close>

definition to_int32 :: "int \<Rightarrow> int" where
  "to_int32 i = sint (word_of_int i :: 32 word)"

datatype Dtype = kInt32 | kFloat32 | kHandle | kUninitialized

datatype CompareSelectOperation = kEQ | kGT | kGE | kLT | kLE | kNE

datatype IntrinsicsOp =
    kSin | kCos | kTan | kAsin | kAcos | kAtan | kAtan2 | kSinh | kCosh | kTanh
  | kExp | kExpm1 | kFabs | kLog | kLog2 | kLog10 | kErf | kErfc | kSqrt | kRsqrt
  | kPow | kCeil | kFloor | kRound | kTrunc | kFmod | kRemainder | kLgamma | kRand

text \<open>
  Modelled from the spec: the expression classes (\<^verbatim>\<open>ExprHandle\<close>, \<^verbatim>\<open>IntImm\<close>,
  \<^verbatim>\<open>FloatImm\<close>, \<^verbatim>\<open>Cast\<close>, ...) and \<^verbatim>\<open>Tensor\<close> are declared in headers that are not
  part of the sources at hand; only their forward declarations are
  (\<^verbatim>\<open>ir_mutator.h\<close>). The spec describes them as a tree of typed scalar expressions
  (immediates, variables, arithmetic, compare and intrinsic operations, casts) and a
  symbolic tensor as a named, shaped function from axis variables to a scalar
  expression. One constructor stands for each node class the kernel builds.

  A variable carries its name hint and its type; the number tells apart the variables
  that one call creates under one name hint (the axis variables of one tensor, by
  position), which the C++ tells apart as objects. A load carries the name and the
  element type of its buffer. A call (\<^verbatim>\<open>t->call(indices)\<close>) carries the tensor it reads.
  A symbolic tensor is the name of its function, its dimensions, its axis variables and
  its element expression.
\<close>

datatype expr =
    IntImm int
  | FloatImm fval
  | Var string Dtype nat
  | Cast Dtype expr
  | Add expr expr
  | Sub expr expr
  | Mul expr expr
  | Div expr expr
  | Mod expr expr
  | Max expr expr bool
  | Min expr expr bool
  | CompareSelect expr expr CompareSelectOperation
  | IfThenElse expr expr expr
  | Intrinsics0 IntrinsicsOp Dtype
  | Intrinsics1 IntrinsicsOp expr
  | Intrinsics2 IntrinsicsOp expr expr
  | Load string Dtype expr
  | FunctionCall Tensor "expr list"
and Tensor =
  Tensor (func_name: string) (dims: "expr list") (args: "expr list") (body: expr)

text \<open>
  Modelled from the spec: the type of an expression. An immediate has the type of its
  literal, a variable or a load its declared type, a cast its target type, a call the
  type of the tensor's element expression; a binary arithmetic node of one integer and
  one float operand is float, of two operands of one type that type; a comparison
  yields an integer; an intrinsic has the type of its first operand.
\<close>

fun BinaryOpDtype :: "Dtype \<Rightarrow> Dtype \<Rightarrow> Dtype" where
  "BinaryOpDtype a b =
     (if a = b then a
      else if a = kInt32 \<and> b = kFloat32 then b
      else if a = kFloat32 \<and> b = kInt32 then a
      else kUninitialized)"

fun dtype :: "expr \<Rightarrow> Dtype" and tensor_dtype :: "Tensor \<Rightarrow> Dtype" where
  "dtype (IntImm _) = kInt32"
| "dtype (FloatImm _) = kFloat32"
| "dtype (Var _ t _) = t"
| "dtype (Cast t _) = t"
| "dtype (Add a b) = BinaryOpDtype (dtype a) (dtype b)"
| "dtype (Sub a b) = BinaryOpDtype (dtype a) (dtype b)"
| "dtype (Mul a b) = BinaryOpDtype (dtype a) (dtype b)"
| "dtype (Div a b) = BinaryOpDtype (dtype a) (dtype b)"
| "dtype (Mod a b) = BinaryOpDtype (dtype a) (dtype b)"
| "dtype (Max a b _) = BinaryOpDtype (dtype a) (dtype b)"
| "dtype (Min a b _) = BinaryOpDtype (dtype a) (dtype b)"
| "dtype (CompareSelect _ _ _) = kInt32"
| "dtype (IfThenElse _ t _) = dtype t"
| "dtype (Intrinsics0 _ t) = t"
| "dtype (Intrinsics1 _ a) = dtype a"
| "dtype (Intrinsics2 _ a b) = BinaryOpDtype (dtype a) (dtype b)"
| "dtype (Load _ t _) = t"
| "dtype (FunctionCall t _) = tensor_dtype t"
| "tensor_dtype (Tensor _ _ _ b) = dtype b"

section \<open>The graph, run-time values and the kernel's tables\<close>

datatype ScalarType = ScalarType_Int | ScalarType_Float | ScalarType_Other

datatype DeviceType = kCPU | kCUDA | kOtherDeviceType

record Device =
  device_type :: DeviceType
  device_index :: int

text \<open>A run-time tensor (\<^verbatim>\<open>at::Tensor\<close>), as far as the kernel looks at it.\<close>

record at_Tensor =
  tensor_device :: Device
  tensor_sizes :: "int list"
  tensor_strides :: "int list"
  tensor_data_ptr :: nat

datatype IValue =
    IDouble fval
  | IInt int
  | INone
  | ITensor at_Tensor
  | IBool bool
  | IString string

text \<open>
  The type of a graph value. A tensor type gives the scalar type, the sizes (a negative
  size stands for a size unknown at compile time), the strides and the contiguity flag
  of every axis.
\<close>

datatype JitType =
    TensorType ScalarType "int list" "int list" "bool list"
  | FloatType
  | IntType
  | NoneType
  | ListType
  | OtherType

datatype Symbol =
    aten_add | aten__cast_Float | aten_sub | aten_mul | aten_div | aten_addcmul
  | aten_eq | aten_ne | aten_ge | aten_gt | aten_le | aten_lt | aten_min | aten_max
  | aten_clamp | aten_sigmoid | aten_reciprocal | aten_neg | aten_relu | aten_log
  | aten_log10 | aten_log2 | aten_exp | aten_expm1 | aten_erf | aten_erfc | aten_cos
  | aten_sin | aten_tan | aten_type_as | aten_rand_like | aten_pow | aten_fmod
  | aten_lerp | aten_remainder | aten_acos | aten_asin | aten_cosh | aten_sinh
  | aten_atan | aten_atan2 | aten_tanh | aten_sqrt | aten_rsqrt | aten_abs | aten_ceil
  | aten_floor | aten_round | aten_trunc | aten_threshold | aten_frac | aten_lgamma
  | prim_ConstantChunk | aten_cat | aten_slice | aten_unsqueeze
  | aten__sigmoid_backward | aten__tanh_backward
  | prim_Constant | prim_ListConstruct | prim_Param | aten_other

text \<open>
  A graph value (\<^verbatim>\<open>torch::jit::Value\<close>) together with the node that produces it:
  \<open>node_kind\<close>, \<open>node_inputs\<close>, \<open>node_ivalue\<close> (what \<^verbatim>\<open>toIValue\<close> returns) and
  \<open>node_attrs\<close> (the integer attributes) are \<^verbatim>\<open>v->node()->kind()\<close> and so on.
\<close>

datatype Value =
  Value (v_unique: nat) (debugName: string) (v_type: JitType) (v_offset: nat)
    (hasUses: bool) (node_kind: Symbol) (node_inputs: "Value list")
    (node_ivalue: "IValue option") (node_attrs: "(string \<times> int) list")

datatype error =
    UnhandledDatatype
  | UnhandledConstantDatatype
  | CouldntFindScalarValue
  | UnhandledNodeKind
  | UnhandledInputType
  | NoTensorInputs
  | InvalidDeviceType
  | InconsistentBackendType
  | InvalidBackendType
  | InvalidLoopLevel int
  | CheckFailed
  | OutOfRange
  | BadOptionalAccess
  | OutputMustBeTensor

text \<open>
  A kernel argument: the buffer or scalar variable (its name, its type, and whether it
  is a scalar variable), and the registered size and stride variables, each with the
  index of its axis.
\<close>

record KernelArg =
  arg_name :: string
  arg_dtype :: Dtype
  arg_isVar :: bool
  arg_sizes :: "(int \<times> expr) list"
  arg_strides :: "(int \<times> expr) list"

datatype BackendType = kUninitializedBackend | kSimpleIREval | kLLVMCodeGen | kCudaCodeGen

text \<open>
  The tiling chosen for one GPU output: none when a dimension is not a constant, one
  masked split by the block size at two loop levels, two nested masked splits (by block
  count times block size, then by block size) at three.
\<close>

datatype Tiling = NoTiling | SplitTwo int | SplitThree int int

text \<open>
  What \<^verbatim>\<open>LowerToBackend\<close> hands to the scheduler and the code generator, which are
  outside the sources at hand: the name of the backend, the formal parameters in order,
  the tensors that are lowered to loops and the tiling of each.
\<close>

record CodeGen =
  codegen_name :: string
  codegen_params :: "string list"
  codegen_outputs :: "Tensor list"
  codegen_tiling :: "Tiling list"

text \<open>
  The members of \<^verbatim>\<open>TensorExprKernel\<close>; the member \<^verbatim>\<open>tensors_\<close> is the field
  \<open>tensors_k\<close>, and so on.
\<close>

record TensorExprKernel =
  n_inputs_k :: nat
  tensors_k :: "nat \<rightharpoonup> Tensor"
  scalars_k :: "nat \<rightharpoonup> expr"
  kernelArgs_k :: "KernelArg list"
  tensor_outputs_k :: "Tensor list"
  backend_type_k :: BackendType
  device_k :: Device
  codegen_k :: "CodeGen option"

section \<open>Constants, promotion and demotion\<close>

text \<open>
  \<^verbatim>\<open>TensorExprKernel::constant\<close> (named \<open>constant_expr\<close> here). The conversion of the constant's \<^verbatim>\<open>double\<close> to the
  \<^verbatim>\<open>float\<close> of the immediate is the parameter \<open>to_float\<close>; the constant's 64-bit
  integer is cut to the \<^verbatim>\<open>int\<close> of the immediate.
\<close>

definition constant_expr :: "(fval \<Rightarrow> fval) \<Rightarrow> TensorExprKernel \<Rightarrow> Value \<Rightarrow> error + expr" where
  "constant_expr to_float k v =
     (if node_kind v = prim_Constant then
        (case node_ivalue v of
           None \<Rightarrow> Inl BadOptionalAccess
         | Some (IDouble d) \<Rightarrow> Inr (FloatImm (to_float d))
         | Some (IInt i) \<Rightarrow> Inr (IntImm (to_int32 i))
         | Some INone \<Rightarrow> Inr (IntImm 0)
         | Some _ \<Rightarrow> Inl UnhandledConstantDatatype)
      else
        (case scalars_k k (v_unique v) of
           None \<Rightarrow> Inl CouldntFindScalarValue
         | Some e \<Rightarrow> Inr e))"

text \<open>\<^verbatim>\<open>TensorExprKernel::promoteInputs\<close>, returning the vector it updates in place.\<close>

definition promoteInputs :: "expr list \<Rightarrow> expr list" where
  "promoteInputs inputs =
     (let any_float = list_ex (\<lambda>e. dtype e = kFloat32) inputs in
      if \<not> any_float then inputs
      else map (\<lambda>e. if dtype e = kInt32 then Cast kFloat32 e else e) inputs)"

text \<open>
  \<^verbatim>\<open>TensorExprKernel::demoteOutput\<close>. The \<^verbatim>\<open>CHECK\<close> fails on a value that is not of
  tensor type.
\<close>

definition demoteOutput :: "expr \<Rightarrow> Value \<Rightarrow> error + expr" where
  "demoteOutput e v =
     (case v_type v of
        TensorType tt _ _ _ \<Rightarrow>
          if dtype e = kFloat32 \<and> tt = ScalarType_Int then Inr (Cast kInt32 e) else Inr e
      | _ \<Rightarrow> Inl CheckFailed)"

section \<open>Broadcasting of shapes\<close>

text \<open>\<^verbatim>\<open>isOne\<close>: the expression is an integer immediate of value 1.\<close>

fun isOne :: "expr \<Rightarrow> bool" where
  "isOne (IntImm n) = (n = 1)"
| "isOne _ = False"

text \<open>
  The loop of \<^verbatim>\<open>broadcastShapes\<close>. The two reverse iterators are the reversed
  shapes still to be read; \<open>ret\<close> grows at its end, as \<^verbatim>\<open>push_back\<close> does.
\<close>

fun broadcast_loop :: "expr list \<Rightarrow> expr list \<Rightarrow> expr list \<Rightarrow> expr list" where
  "broadcast_loop [] [] ret = ret"
| "broadcast_loop [] (b # bs) ret = broadcast_loop [] bs (ret @ [b])"
| "broadcast_loop (a # as) [] ret = broadcast_loop as [] (ret @ [a])"
| "broadcast_loop (a # as) (b # bs) ret =
     broadcast_loop as bs (ret @ [if isOne a then b else a])"

definition broadcastShapes :: "expr list \<Rightarrow> expr list \<Rightarrow> expr list" where
  "broadcastShapes a b = rev (broadcast_loop (rev a) (rev b) [])"

text \<open>
  \<^verbatim>\<open>TensorExprKernel::valueShape\<close>: the dimensions of the value's symbolic tensor, and
  the one-element shape \<^verbatim>\<open>{1}\<close> for a value that has none.
\<close>

definition valueShape :: "TensorExprKernel \<Rightarrow> Value \<Rightarrow> expr list" where
  "valueShape k v =
     (case tensors_k k (v_unique v) of
        None \<Rightarrow> [IntImm 1]
      | Some t \<Rightarrow> dims t)"

section \<open>Operand reads and the generic combinators\<close>

text \<open>Sequencing of steps that may fail: the first error ends the computation.\<close>

definition bind_err :: "error + 'a \<Rightarrow> ('a \<Rightarrow> error + 'b) \<Rightarrow> error + 'b" where
  "bind_err m f = (case m of Inl e \<Rightarrow> Inl e | Inr x \<Rightarrow> f x)"

text \<open>\<^verbatim>\<open>n->inputs()[i]\<close>; reading past the end of the inputs is an error.\<close>

definition input_at :: "Value \<Rightarrow> nat \<Rightarrow> error + Value" where
  "input_at v i =
     (if i < length (node_inputs v) then Inr (node_inputs v ! i) else Inl OutOfRange)"

text \<open>\<^verbatim>\<open>std::to_string\<close> on a number that is not negative.\<close>

function to_string :: "nat \<Rightarrow> string" where
  "to_string n =
     (if n < 10 then [char_of (48 + n)]
      else to_string (n div 10) @ [char_of (48 + n mod 10)])"
  by pat_completeness auto
termination
  by (relation "measure id") auto

declare to_string.simps [simp del]

text \<open>
  Modelled from the spec: \<^verbatim>\<open>Compute\<close> is defined outside the sources at hand. It
  makes a symbolic tensor of the given name and dimensions: one integer axis variable
  for every dimension, named by the dimension's name hint, and the element expression
  that the body function returns on these axis variables. A dimension argument
  (\<^verbatim>\<open>DimArg\<close>) is a dimension with a name hint, which is empty where the C++ makes it
  from the dimension alone.
\<close>

definition axis_vars :: "(expr \<times> string) list \<Rightarrow> expr list" where
  "axis_vars dim_args = map (\<lambda>(j, d). Var (snd d) kInt32 j) (enumerate 0 dim_args)"

definition Compute ::
  "string \<Rightarrow> (expr \<times> string) list \<Rightarrow> (expr list \<Rightarrow> error + expr) \<Rightarrow> error + Tensor" where
  "Compute name dim_args body_func =
     bind_err (body_func (axis_vars dim_args))
       (\<lambda>b. Inr (Tensor name (map fst dim_args) (axis_vars dim_args) b))"

text \<open>\<^verbatim>\<open>c10::fmap<DimArg>(shape)\<close>: each dimension with an empty name hint.\<close>

definition fmap_DimArg :: "expr list \<Rightarrow> (expr \<times> string) list" where
  "fmap_DimArg shape = map (\<lambda>d. (d, [])) shape"

text \<open>
  Modelled from the spec: \<^verbatim>\<open>tensorOrConstant\<close> and the broadcast read it makes are
  defined in a header outside the sources at hand. The operand is read at the
  broadcast-adjusted axis indices: the operand's axes are aligned with the innermost
  output axes, and an axis whose extent is the constant 1 is pinned to index 0
  regardless of the output's axis variable. A value with no symbolic tensor is a
  constant or a scalar parameter.
\<close>

definition broadcast :: "Tensor \<Rightarrow> expr list \<Rightarrow> expr" where
  "broadcast t axes =
     FunctionCall t
       (rev (map (\<lambda>(d, ax). if isOne d then IntImm 0 else ax) (zip (rev (dims t)) (rev axes))))"

definition tensorOrConstant ::
  "(fval \<Rightarrow> fval) \<Rightarrow> TensorExprKernel \<Rightarrow> Value \<Rightarrow> expr list \<Rightarrow> error + expr" where
  "tensorOrConstant to_float k v axes =
     (case tensors_k k (v_unique v) of
        Some t \<Rightarrow> Inr (broadcast t axes)
      | None \<Rightarrow> constant_expr to_float k v)"

text \<open>
  The operand expressions of the first \<open>n\<close> inputs of the node, in order; the first
  failure ends the lowering.
\<close>

fun operands ::
  "(fval \<Rightarrow> fval) \<Rightarrow> TensorExprKernel \<Rightarrow> Value \<Rightarrow> expr list \<Rightarrow> nat list \<Rightarrow> error + expr list" where
  "operands to_float k v axes [] = Inr []"
| "operands to_float k v axes (i # is) =
     (case input_at v i of
        Inl e \<Rightarrow> Inl e
      | Inr vi \<Rightarrow>
          (case tensorOrConstant to_float k vi axes of
             Inl e \<Rightarrow> Inl e
           | Inr x \<Rightarrow>
               (case operands to_float k v axes is of
                  Inl e \<Rightarrow> Inl e
                | Inr xs \<Rightarrow> Inr (x # xs))))"

text \<open>
  The body that every generic combinator hands to \<^verbatim>\<open>Compute\<close>: read the operands,
  promote them, apply the operator's expression, demote the result to the type of the
  node's output.
\<close>

definition compute_body ::
  "(fval \<Rightarrow> fval) \<Rightarrow> TensorExprKernel \<Rightarrow> Value \<Rightarrow> nat \<Rightarrow> (expr list \<Rightarrow> expr) \<Rightarrow> expr list
     \<Rightarrow> error + expr" where
  "compute_body to_float k v n inner_expr axes =
     bind_err (operands to_float k v axes [0..<n])
       (\<lambda>inputs. demoteOutput (inner_expr (promoteInputs inputs)) v)"

text \<open>The shape of the \<open>i\<close>-th input of the node.\<close>

definition input_shape :: "TensorExprKernel \<Rightarrow> Value \<Rightarrow> nat \<Rightarrow> error + expr list" where
  "input_shape k v i = bind_err (input_at v i) (\<lambda>vi. Inr (valueShape k vi))"

definition ComputeOneOperand ::
  "(fval \<Rightarrow> fval) \<Rightarrow> TensorExprKernel \<Rightarrow> string \<Rightarrow> Value \<Rightarrow> (expr \<Rightarrow> expr) \<Rightarrow> error + Tensor" where
  "ComputeOneOperand to_float k name v inner_expr =
     bind_err (input_shape k v 0) (\<lambda>shape.
       Compute name (fmap_DimArg shape)
         (compute_body to_float k v 1 (\<lambda>inputs. inner_expr (inputs ! 0))))"

definition ComputeTwoOperand ::
  "(fval \<Rightarrow> fval) \<Rightarrow> TensorExprKernel \<Rightarrow> string \<Rightarrow> Value \<Rightarrow> (expr \<Rightarrow> expr \<Rightarrow> expr)
     \<Rightarrow> error + Tensor" where
  "ComputeTwoOperand to_float k name v inner_expr =
     bind_err (input_shape k v 0) (\<lambda>s0. bind_err (input_shape k v 1) (\<lambda>s1.
       Compute name (fmap_DimArg (broadcastShapes s0 s1))
         (compute_body to_float k v 2 (\<lambda>inputs. inner_expr (inputs ! 0) (inputs ! 1)))))"

definition ComputeTwoOperandWithAlpha ::
  "(fval \<Rightarrow> fval) \<Rightarrow> TensorExprKernel \<Rightarrow> string \<Rightarrow> Value \<Rightarrow> (expr \<Rightarrow> expr \<Rightarrow> expr)
     \<Rightarrow> error + Tensor" where
  "ComputeTwoOperandWithAlpha to_float k name v inner_expr =
     bind_err (input_shape k v 0) (\<lambda>s0. bind_err (input_shape k v 1) (\<lambda>s1.
       Compute name (fmap_DimArg (broadcastShapes s0 s1))
         (compute_body to_float k v 3
            (\<lambda>inputs. inner_expr (inputs ! 0) (Mul (inputs ! 2) (inputs ! 1))))))"

definition ComputeThreeOperand ::
  "(fval \<Rightarrow> fval) \<Rightarrow> TensorExprKernel \<Rightarrow> string \<Rightarrow> Value \<Rightarrow> (expr \<Rightarrow> expr \<Rightarrow> expr \<Rightarrow> expr)
     \<Rightarrow> error + Tensor" where
  "ComputeThreeOperand to_float k name v inner_expr =
     bind_err (input_shape k v 0) (\<lambda>s0. bind_err (input_shape k v 1) (\<lambda>s1.
     bind_err (input_shape k v 2) (\<lambda>s2.
       Compute name (fmap_DimArg (broadcastShapes (broadcastShapes s0 s1) s2))
         (compute_body to_float k v 3
            (\<lambda>inputs. inner_expr (inputs ! 0) (inputs ! 1) (inputs ! 2))))))"

definition ComputeFourOperand ::
  "(fval \<Rightarrow> fval) \<Rightarrow> TensorExprKernel \<Rightarrow> string \<Rightarrow> Value
     \<Rightarrow> (expr \<Rightarrow> expr \<Rightarrow> expr \<Rightarrow> expr \<Rightarrow> expr) \<Rightarrow> error + Tensor" where
  "ComputeFourOperand to_float k name v inner_expr =
     bind_err (input_shape k v 0) (\<lambda>s0. bind_err (input_shape k v 1) (\<lambda>s1.
     bind_err (input_shape k v 2) (\<lambda>s2. bind_err (input_shape k v 3) (\<lambda>s3.
       Compute name
         (fmap_DimArg (broadcastShapes (broadcastShapes (broadcastShapes s0 s1) s2) s3))
         (compute_body to_float k v 4
            (\<lambda>inputs. inner_expr (inputs ! 0) (inputs ! 1) (inputs ! 2) (inputs ! 3)))))))"

section \<open>The operator lowering table\<close>

text \<open>
  The expression of \<^verbatim>\<open>aten::pow\<close>. First the exponent that is a float immediate.
  \<^verbatim>\<open>tmp * tmp\<close> with \<^verbatim>\<open>tmp = lhs * lhs\<close> is the product of two copies of the node.
\<close>

fun pow_float_imm :: "expr \<Rightarrow> expr \<Rightarrow> expr option" where
  "pow_float_imm lhs (FloatImm imm) =
     (if float_eq imm 1 then Some lhs
      else if float_eq imm 2 then Some (Mul lhs lhs)
      else if float_eq imm 3 then Some (Mul (Mul lhs lhs) lhs)
      else if float_eq imm 4 then Some (Mul (Mul lhs lhs) (Mul lhs lhs))
      else if float_eq imm 0.5 then Some (Intrinsics1 kSqrt lhs)
      else if float_eq imm 0 then Some (FloatImm (Fin 1))
      else if float_eq imm (- 0.5) then Some (Intrinsics1 kRsqrt lhs)
      else if float_eq imm (- 1) then Some (Div (FloatImm (Fin 1)) lhs)
      else if float_eq imm (- 2) then Some (Div (FloatImm (Fin 1)) (Mul lhs lhs))
      else None)"
| "pow_float_imm lhs _ = None"

text \<open>
  Then the exponent that is a cast of an integer immediate. The C++ converts the
  integer to \<^verbatim>\<open>float\<close> and compares it with 1, 2, 3, 4, 0, -1 and -2; the conversion of
  a 32-bit integer yields one of these floats for that integer only, so the comparisons
  are those of the integer.
\<close>

fun pow_cast_imm :: "expr \<Rightarrow> expr \<Rightarrow> expr option" where
  "pow_cast_imm lhs (Cast t (IntImm imm)) =
     (if imm = 1 then Some lhs
      else if imm = 2 then Some (Mul lhs lhs)
      else if imm = 3 then Some (Mul (Mul lhs lhs) lhs)
      else if imm = 4 then Some (Mul (Mul lhs lhs) (Mul lhs lhs))
      else if imm = 0 then Some (FloatImm (Fin 1))
      else if imm = - 1 then Some (Div (FloatImm (Fin 1)) lhs)
      else if imm = - 2 then Some (Div (FloatImm (Fin 1)) (Mul lhs lhs))
      else None)"
| "pow_cast_imm lhs _ = None"

definition pow_expr :: "expr \<Rightarrow> expr \<Rightarrow> expr" where
  "pow_expr lhs rhs =
     (case pow_float_imm lhs rhs of
        Some e \<Rightarrow> e
      | None \<Rightarrow>
          (case pow_cast_imm lhs rhs of
             Some e \<Rightarrow> e
           | None \<Rightarrow> Intrinsics2 kPow lhs rhs))"

text \<open>
  \<^verbatim>\<open>aten::clamp\<close>: whether an operand of the node is a constant of value \<^verbatim>\<open>None\<close>, and
  the expression chosen by the two flags.
\<close>

definition is_none_constant :: "Value \<Rightarrow> error + bool" where
  "is_none_constant vi =
     (if node_kind vi = prim_Constant then
        (case node_ivalue vi of
           None \<Rightarrow> Inl BadOptionalAccess
         | Some INone \<Rightarrow> Inr True
         | Some _ \<Rightarrow> Inr False)
      else Inr False)"

definition clamp_expr :: "bool \<Rightarrow> bool \<Rightarrow> expr \<Rightarrow> expr \<Rightarrow> expr \<Rightarrow> expr" where
  "clamp_expr no_min no_max in_e min_e max_e =
     (if no_min \<and> no_max then in_e
      else if no_min then Min in_e max_e False
      else if no_max then Max in_e min_e False
      else Max (Min in_e max_e False) min_e False)"

definition lower_clamp :: "(fval \<Rightarrow> fval) \<Rightarrow> TensorExprKernel \<Rightarrow> Value \<Rightarrow> error + Tensor" where
  "lower_clamp to_float k v =
     bind_err (input_at v 1) (\<lambda>v1. bind_err (is_none_constant v1) (\<lambda>no_min.
     bind_err (input_at v 2) (\<lambda>v2. bind_err (is_none_constant v2) (\<lambda>no_max.
       ComputeThreeOperand to_float k ''aten_clamp'' v (clamp_expr no_min no_max)))))"

text \<open>\<^verbatim>\<open>texprSizes\<close> and \<^verbatim>\<open>texprDims\<close>: the declared sizes of a tensor value as dimensions.\<close>

definition texprSizes :: "int list \<Rightarrow> expr list" where
  "texprSizes shape = map (\<lambda>s. IntImm (to_int32 s)) shape"

definition texprDims :: "Value \<Rightarrow> error + (expr \<times> string) list" where
  "texprDims v =
     (case v_type v of
        TensorType _ sizes _ _ \<Rightarrow>
          Inr (map (\<lambda>(i, s). (s, ''i'' @ to_string i)) (enumerate 0 (texprSizes sizes)))
      | _ \<Rightarrow> Inl CheckFailed)"

text \<open>\<^verbatim>\<open>tensors_.at(v->unique())\<close>, which throws on a value that has no tensor.\<close>

definition tensor_at :: "TensorExprKernel \<Rightarrow> Value \<Rightarrow> error + Tensor" where
  "tensor_at k v =
     (case tensors_k k (v_unique v) of None \<Rightarrow> Inl OutOfRange | Some t \<Rightarrow> Inr t)"

text \<open>
  Modelled from the spec: \<^verbatim>\<open>bufferSizes\<close> is defined outside the sources at hand. It
  gives the sizes of a symbolic tensor as integers, for \<^verbatim>\<open>cat\<close> each segment's size along
  the concatenation axis; a dimension that is not a constant has no such size.
\<close>

fun bufferSizes_list :: "expr list \<Rightarrow> error + int list" where
  "bufferSizes_list [] = Inr []"
| "bufferSizes_list (IntImm n # ds) =
     (case bufferSizes_list ds of Inl e \<Rightarrow> Inl e | Inr ns \<Rightarrow> Inr (n # ns))"
| "bufferSizes_list (_ # ds) = Inl CheckFailed"

definition bufferSizes :: "Tensor \<Rightarrow> error + int list" where
  "bufferSizes t = bufferSizes_list (dims t)"

text \<open>The integer attribute \<^verbatim>\<open>n->i(name)\<close> of the node that produces the value.\<close>

definition node_attr_i :: "Value \<Rightarrow> string \<Rightarrow> error + int" where
  "node_attr_i v name =
     (case map_of (node_attrs v) name of None \<Rightarrow> Inl CheckFailed | Some i \<Rightarrow> Inr i)"

text \<open>
  Modelled from the spec: \<^verbatim>\<open>chunk\<close> is defined outside the sources at hand. A chunk
  reads the upstream tensor with the axis of the split shifted by the chunk's offset
  times the size of one chunk.
\<close>

definition chunk :: "Tensor \<Rightarrow> nat \<Rightarrow> int \<Rightarrow> int \<Rightarrow> expr list \<Rightarrow> error + expr" where
  "chunk t chunk_idx dim' chunks axes =
     bind_err (bufferSizes t) (\<lambda>sizes.
       if 0 \<le> dim' \<and> nat dim' < length sizes \<and> chunks \<noteq> 0 then
         Inr (FunctionCall t
           (map (\<lambda>(i, ax).
                   if i = nat dim'
                   then Add ax (IntImm (to_int32 (int chunk_idx * (sizes ! nat dim' div chunks))))
                   else ax)
              (enumerate 0 axes)))
       else Inl OutOfRange)"

text \<open>
  The loop of \<^verbatim>\<open>aten::cat\<close> over the inputs from the second on. \<open>load\<close>, \<open>offset\<close> and
  \<open>new_axes\<close> are the variables of the C++.
\<close>

fun cat_loop ::
  "(fval \<Rightarrow> fval) \<Rightarrow> TensorExprKernel \<Rightarrow> expr list \<Rightarrow> nat \<Rightarrow> Value list \<Rightarrow> expr \<Rightarrow> int
     \<Rightarrow> expr list \<Rightarrow> error + expr" where
  "cat_loop to_float k axes dim' [] load offset new_axes = Inr load"
| "cat_loop to_float k axes dim' (inp # rest) load offset new_axes =
     (case tensorOrConstant to_float k inp new_axes of
        Inl e \<Rightarrow> Inl e
      | Inr rd \<Rightarrow>
          (case bind_err (tensor_at k inp) bufferSizes of
             Inl e \<Rightarrow> Inl e
           | Inr sizes \<Rightarrow>
               if dim' < length sizes \<and> dim' < length axes then
                 cat_loop to_float k axes dim' rest
                   (IfThenElse (CompareSelect (axes ! dim') (IntImm (to_int32 offset)) kLT) load rd)
                   (offset + sizes ! dim')
                   (new_axes[dim' := Sub (new_axes ! dim') (IntImm (to_int32 (offset + sizes ! dim')))])
               else Inl OutOfRange))"

definition cat_body ::
  "(fval \<Rightarrow> fval) \<Rightarrow> TensorExprKernel \<Rightarrow> Value \<Rightarrow> expr list \<Rightarrow> error + expr" where
  "cat_body to_float k v axes =
     bind_err (input_at v 0) (\<lambda>list_v. bind_err (input_at v 1) (\<lambda>dim_v.
     bind_err (node_attr_i dim_v ''value'') (\<lambda>d.
       case node_inputs list_v of
         [] \<Rightarrow> Inl OutOfRange
       | inp0 # rest \<Rightarrow>
           bind_err (tensorOrConstant to_float k inp0 axes) (\<lambda>load.
           bind_err (bind_err (tensor_at k inp0) bufferSizes) (\<lambda>sizes.
             if 0 \<le> d \<and> nat d < length sizes \<and> nat d < length axes then
               cat_loop to_float k axes (nat d) rest load (sizes ! nat d)
                 (axes[nat d := Sub (axes ! nat d) (IntImm (to_int32 (sizes ! nat d)))])
             else Inl OutOfRange)))))"

text \<open>The integer of an immediate, \<^verbatim>\<open>e.AsNode<IntImm>()->value()\<close>.\<close>

definition int_imm_value :: "expr \<Rightarrow> error + int" where
  "int_imm_value e = (case e of IntImm n \<Rightarrow> Inr n | _ \<Rightarrow> Inl CheckFailed)"

definition slice_body ::
  "(fval \<Rightarrow> fval) \<Rightarrow> TensorExprKernel \<Rightarrow> Value \<Rightarrow> expr list \<Rightarrow> error + expr" where
  "slice_body to_float k v axes =
     bind_err (input_at v 1) (\<lambda>v1. bind_err (constant_expr to_float k v1) (\<lambda>c1.
     bind_err (int_imm_value c1) (\<lambda>dim'.
     bind_err (input_at v 2) (\<lambda>v2. bind_err (constant_expr to_float k v2) (\<lambda>start.
     bind_err (input_at v 4) (\<lambda>v4. bind_err (constant_expr to_float k v4) (\<lambda>stride.
       if 0 \<le> dim' \<and> nat dim' < length axes then
         bind_err (input_at v 0) (\<lambda>v0.
           tensorOrConstant to_float k v0
             (axes[nat dim' := Add (Mul stride (axes ! nat dim')) start]))
       else Inl OutOfRange)))))))"

definition unsqueeze_body ::
  "(fval \<Rightarrow> fval) \<Rightarrow> TensorExprKernel \<Rightarrow> Value \<Rightarrow> expr list \<Rightarrow> error + expr" where
  "unsqueeze_body to_float k v axes =
     bind_err (input_at v 1) (\<lambda>v1. bind_err (constant_expr to_float k v1) (\<lambda>c1.
     bind_err (int_imm_value c1) (\<lambda>dim0.
       let dim' = (if dim0 < 0 then dim0 + int (length axes) - 1 else dim0) in
       if 0 \<le> dim' \<and> nat dim' < length axes then
         bind_err (input_at v 0) (\<lambda>v0.
           tensorOrConstant to_float k v0 (take (nat dim') axes @ drop (Suc (nat dim')) axes))
       else Inl OutOfRange)))"

definition chunk_body :: "TensorExprKernel \<Rightarrow> Value \<Rightarrow> expr list \<Rightarrow> error + expr" where
  "chunk_body k v axes =
     bind_err (node_attr_i v ''dim'') (\<lambda>dim'. bind_err (node_attr_i v ''chunks'') (\<lambda>chunks.
     bind_err (input_at v 0) (\<lambda>v0. bind_err (tensor_at k v0) (\<lambda>t.
       chunk t (v_offset v) dim' chunks axes))))"

text \<open>
  \<^verbatim>\<open>TensorExprKernel::ComputeValue\<close>: the table from the kind of the node to its
  lowering. \<open>op1\<close>, \<open>op2\<close>, \<open>op2a\<close>, \<open>op3\<close> and \<open>op4\<close> abbreviate the generic
  combinators.
\<close>

definition ComputeValue :: "(fval \<Rightarrow> fval) \<Rightarrow> TensorExprKernel \<Rightarrow> Value \<Rightarrow> error + Tensor" where
  "ComputeValue to_float k v =
     (let op1 = ComputeOneOperand to_float k;
          op2 = ComputeTwoOperand to_float k;
          op2a = ComputeTwoOperandWithAlpha to_float k;
          op3 = ComputeThreeOperand to_float k;
          op4 = ComputeFourOperand to_float k;
          one = FloatImm (Fin 1)
      in case node_kind v of
        aten_add \<Rightarrow> op2a ''aten_add'' v (\<lambda>lhs rhs. Add lhs rhs)
      | aten__cast_Float \<Rightarrow> op1 ''aten_cast_float'' v (\<lambda>a. Cast kFloat32 a)
      | aten_sub \<Rightarrow> op2a ''aten_sub'' v (\<lambda>lhs rhs. Sub lhs rhs)
      | aten_mul \<Rightarrow> op2 ''aten_mul'' v (\<lambda>lhs rhs. Mul lhs rhs)
      | aten_div \<Rightarrow> op2 ''aten_div'' v (\<lambda>lhs rhs. Div lhs rhs)
      | aten_addcmul \<Rightarrow>
          op4 ''aten_addcmul'' v (\<lambda>a0 a1 a2 a3. Add a0 (Mul (Mul a3 a1) a2))
      | aten_eq \<Rightarrow> op2 ''aten_eq'' v (\<lambda>lhs rhs. CompareSelect lhs rhs kEQ)
      | aten_ne \<Rightarrow> op2 ''aten_ne'' v (\<lambda>lhs rhs. CompareSelect lhs rhs kNE)
      | aten_ge \<Rightarrow> op2 ''aten_ge'' v (\<lambda>lhs rhs. CompareSelect lhs rhs kGE)
      | aten_gt \<Rightarrow> op2 ''aten_gt'' v (\<lambda>lhs rhs. CompareSelect lhs rhs kGT)
      | aten_le \<Rightarrow> op2 ''aten_le'' v (\<lambda>lhs rhs. CompareSelect lhs rhs kLE)
      | aten_lt \<Rightarrow> op2 ''aten_lt'' v (\<lambda>lhs rhs. CompareSelect lhs rhs kLT)
      | aten_min \<Rightarrow> op2 ''aten_min'' v (\<lambda>lhs rhs. Min lhs rhs False)
      | aten_max \<Rightarrow> op2 ''aten_max'' v (\<lambda>lhs rhs. Max lhs rhs False)
      | aten_clamp \<Rightarrow> lower_clamp to_float k v
      | aten_sigmoid \<Rightarrow>
          op1 ''aten_sigmoid'' v
            (\<lambda>a. Div one (Add one (Intrinsics1 kExp (Sub (FloatImm NegZero) a))))
      | aten_reciprocal \<Rightarrow> op1 ''aten_reciprocal'' v (\<lambda>a. Div one a)
      | aten_neg \<Rightarrow> op1 ''aten_neg'' v (\<lambda>a. Sub (IntImm 0) a)
      | aten_relu \<Rightarrow> op1 ''aten_relu'' v (\<lambda>a. Max a (IntImm 0) False)
      | aten_log \<Rightarrow> op1 ''aten_log'' v (Intrinsics1 kLog)
      | aten_log10 \<Rightarrow> op1 ''aten_log10'' v (Intrinsics1 kLog10)
      | aten_log2 \<Rightarrow> op1 ''aten_log2'' v (Intrinsics1 kLog2)
      | aten_exp \<Rightarrow> op1 ''aten_exp'' v (Intrinsics1 kExp)
      | aten_expm1 \<Rightarrow> op1 ''aten_expm1'' v (Intrinsics1 kExpm1)
      | aten_erf \<Rightarrow> op1 ''aten_erf'' v (Intrinsics1 kErf)
      | aten_erfc \<Rightarrow> op1 ''aten_erfc'' v (Intrinsics1 kErfc)
      | aten_cos \<Rightarrow> op1 ''aten_cos'' v (Intrinsics1 kCos)
      | aten_sin \<Rightarrow> op1 ''aten_sin'' v (Intrinsics1 kSin)
      | aten_tan \<Rightarrow> op1 ''aten_tan'' v (Intrinsics1 kTan)
      | aten_type_as \<Rightarrow> op2 ''aten_type_as'' v (\<lambda>lhs rhs. Cast (dtype rhs) lhs)
      | aten_rand_like \<Rightarrow> op1 ''aten_rand_like'' v (\<lambda>a. Intrinsics0 kRand (dtype a))
      | aten_pow \<Rightarrow> op2 ''aten_pow'' v pow_expr
      | aten_fmod \<Rightarrow> op2 ''aten_fmod'' v (Intrinsics2 kFmod)
      | aten_lerp \<Rightarrow>
          op3 ''aten_lerp'' v (\<lambda>a end_e weight. Add a (Mul weight (Sub end_e a)))
      | aten_remainder \<Rightarrow>
          op2 ''aten_remainder'' v
            (\<lambda>lhs rhs. Intrinsics2 kFmod (Add rhs (Intrinsics2 kFmod lhs rhs)) rhs)
      | aten_acos \<Rightarrow> op1 ''aten_acos'' v (Intrinsics1 kAcos)
      | aten_asin \<Rightarrow> op1 ''aten_asin'' v (Intrinsics1 kAsin)
      | aten_cosh \<Rightarrow> op1 ''aten_cosh'' v (Intrinsics1 kCosh)
      | aten_sinh \<Rightarrow> op1 ''aten_sinh'' v (Intrinsics1 kSinh)
      | aten_atan \<Rightarrow> op1 ''aten_atan'' v (Intrinsics1 kAtan)
      | aten_atan2 \<Rightarrow> op2 ''aten_atan2'' v (Intrinsics2 kAtan2)
      | aten_tanh \<Rightarrow> op1 ''aten_tanh'' v (Intrinsics1 kTanh)
      | aten_sqrt \<Rightarrow> op1 ''aten_sqrt'' v (Intrinsics1 kSqrt)
      | aten_rsqrt \<Rightarrow> op1 ''aten_rsqrt'' v (Intrinsics1 kRsqrt)
      | aten_abs \<Rightarrow> op1 ''aten_abs'' v (Intrinsics1 kFabs)
      | aten_ceil \<Rightarrow> op1 ''aten_ceil'' v (Intrinsics1 kCeil)
      | aten_floor \<Rightarrow> op1 ''aten_floor'' v (Intrinsics1 kFloor)
      | aten_round \<Rightarrow> op1 ''aten_round'' v (Intrinsics1 kRound)
      | aten_trunc \<Rightarrow> op1 ''aten_trunc'' v (Intrinsics1 kTrunc)
      | aten_threshold \<Rightarrow>
          op3 ''aten_threshold'' v
            (\<lambda>a threshold val. IfThenElse (CompareSelect a threshold kGT) a val)
      | aten_frac \<Rightarrow> op1 ''aten_frac'' v (\<lambda>a. Sub a (Intrinsics1 kFloor a))
      | aten_lgamma \<Rightarrow> op1 ''aten_lgamma'' v (Intrinsics1 kLgamma)
      | prim_ConstantChunk \<Rightarrow>
          bind_err (texprDims v) (\<lambda>ds. Compute ''prim_constantchunk'' ds (chunk_body k v))
      | aten_cat \<Rightarrow>
          bind_err (texprDims v) (\<lambda>ds. Compute ''aten_cat'' ds (cat_body to_float k v))
      | aten_slice \<Rightarrow>
          bind_err (texprDims v) (\<lambda>ds. Compute ''aten_slice'' ds (slice_body to_float k v))
      | aten_unsqueeze \<Rightarrow>
          bind_err (texprDims v)
            (\<lambda>ds. Compute ''aten_unsqueeze'' ds (unsqueeze_body to_float k v))
      | aten__sigmoid_backward \<Rightarrow>
          op2 ''aten_sigmoid_backward'' v (\<lambda>lhs rhs. Mul (Mul lhs rhs) (Sub one rhs))
      | aten__tanh_backward \<Rightarrow>
          op2 ''aten_tanh_backward'' v (\<lambda>lhs rhs. Mul lhs (Sub one (Mul rhs rhs)))
      | _ \<Rightarrow> Inl UnhandledNodeKind)"

text \<open>Whether an expression has a node of the given intrinsic anywhere in its tree.\<close>

fun uses_intrinsic :: "IntrinsicsOp \<Rightarrow> expr \<Rightarrow> bool"
  and tensor_uses_intrinsic :: "IntrinsicsOp \<Rightarrow> Tensor \<Rightarrow> bool" where
  "uses_intrinsic op (IntImm _) = False"
| "uses_intrinsic op (FloatImm _) = False"
| "uses_intrinsic op (Var _ _ _) = False"
| "uses_intrinsic op (Cast _ a) = uses_intrinsic op a"
| "uses_intrinsic op (Add a b) = (uses_intrinsic op a \<or> uses_intrinsic op b)"
| "uses_intrinsic op (Sub a b) = (uses_intrinsic op a \<or> uses_intrinsic op b)"
| "uses_intrinsic op (Mul a b) = (uses_intrinsic op a \<or> uses_intrinsic op b)"
| "uses_intrinsic op (Div a b) = (uses_intrinsic op a \<or> uses_intrinsic op b)"
| "uses_intrinsic op (Mod a b) = (uses_intrinsic op a \<or> uses_intrinsic op b)"
| "uses_intrinsic op (Max a b _) = (uses_intrinsic op a \<or> uses_intrinsic op b)"
| "uses_intrinsic op (Min a b _) = (uses_intrinsic op a \<or> uses_intrinsic op b)"
| "uses_intrinsic op (CompareSelect a b _) = (uses_intrinsic op a \<or> uses_intrinsic op b)"
| "uses_intrinsic op (IfThenElse c a b) =
     (uses_intrinsic op c \<or> uses_intrinsic op a \<or> uses_intrinsic op b)"
| "uses_intrinsic op (Intrinsics0 op' _) = (op' = op)"
| "uses_intrinsic op (Intrinsics1 op' a) = (op' = op \<or> uses_intrinsic op a)"
| "uses_intrinsic op (Intrinsics2 op' a b) =
     (op' = op \<or> uses_intrinsic op a \<or> uses_intrinsic op b)"
| "uses_intrinsic op (Load _ _ a) = uses_intrinsic op a"
| "uses_intrinsic op (FunctionCall t idx) =
     (tensor_uses_intrinsic op t \<or> list_ex (uses_intrinsic op) idx)"
| "tensor_uses_intrinsic op (Tensor _ ds as b) =
     (list_ex (uses_intrinsic op) ds \<or> list_ex (uses_intrinsic op) as \<or> uses_intrinsic op b)"

section \<open>Binding the inputs\<close>

text \<open>\<^verbatim>\<open>texprType\<close>: the expression type of a tensor's scalar type.\<close>

definition texprType :: "ScalarType \<Rightarrow> error + Dtype" where
  "texprType st =
     (case st of
        ScalarType_Int \<Rightarrow> Inr kInt32
      | ScalarType_Float \<Rightarrow> Inr kFloat32
      | ScalarType_Other \<Rightarrow> Inl UnhandledDatatype)"

text \<open>
  The state of the loop of \<^verbatim>\<open>createInputIndexExpr\<close>: the stride and size arguments
  collected so far, the running stride and the index expression.
\<close>

record index_state =
  strideArgs :: "(int \<times> expr) list"
  sizeArgs :: "(int \<times> expr) list"
  stride :: expr
  index :: expr

text \<open>
  One pass of the loop body for the counter \<open>i\<close>, with \<open>n = axes.size() - 1\<close>. The
  contiguity flag is read at \<open>i\<close>; the size and the axis variable are read at \<open>n - i\<close>, and
  \<open>n - i\<close> is the axis index recorded with a new stride or size variable.
\<close>

definition index_step ::
  "string \<Rightarrow> expr list \<Rightarrow> int list \<Rightarrow> bool list \<Rightarrow> (int \<rightharpoonup> expr) \<Rightarrow> nat \<Rightarrow> index_state
     \<Rightarrow> error + index_state" where
  "index_step buffer_name axes sizes contiguity sizeVars i st =
     (let n = length axes - 1 in
      if \<not> (i < length contiguity) \<or> \<not> (n - i < length sizes) then Inl OutOfRange
      else
        let st1 =
              (if \<not> contiguity ! i then
                 (let v = Var (''stride_'' @ buffer_name @ ''_'' @ to_string i) kInt32 0
                  in st\<lparr>strideArgs := strideArgs st @ [(int (n - i), v)], stride := v\<rparr>)
               else st);
            sizeVal = sizes ! (n - i)
        in
          if sizeVal < 0 then
            (case sizeVars sizeVal of
               None \<Rightarrow> Inl CheckFailed
             | Some v \<Rightarrow>
                 Inr (st1\<lparr>sizeArgs := sizeArgs st1 @ [(int (n - i), v)],
                          index := Add (index st1) (Mul (axes ! (n - i)) (stride st1)),
                          stride := Mul (stride st1) v\<rparr>))
          else
            Inr (st1\<lparr>index := Add (index st1) (Mul (axes ! (n - i)) (stride st1)),
                     stride := Mul (stride st1) (IntImm (to_int32 sizeVal))\<rparr>))"

text \<open>The loop over the counters, from 0 up.\<close>

fun index_loop ::
  "string \<Rightarrow> expr list \<Rightarrow> int list \<Rightarrow> bool list \<Rightarrow> (int \<rightharpoonup> expr) \<Rightarrow> nat list \<Rightarrow> index_state
     \<Rightarrow> error + index_state" where
  "index_loop buffer_name axes sizes contiguity sizeVars [] st = Inr st"
| "index_loop buffer_name axes sizes contiguity sizeVars (i # is) st =
     (case index_step buffer_name axes sizes contiguity sizeVars i st of
        Inl e \<Rightarrow> Inl e
      | Inr st' \<Rightarrow> index_loop buffer_name axes sizes contiguity sizeVars is st')"

text \<open>
  \<^verbatim>\<open>TensorExprKernel::createInputIndexExpr\<close>. It returns the load from the buffer and
  the kernel argument that the C++ appends to \<^verbatim>\<open>kernelArgs_\<close>.
\<close>

definition createInputIndexExpr ::
  "string \<Rightarrow> Dtype \<Rightarrow> expr list \<Rightarrow> int list \<Rightarrow> int list \<Rightarrow> bool list \<Rightarrow> (int \<rightharpoonup> expr)
     \<Rightarrow> error + expr \<times> KernelArg" where
  "createInputIndexExpr buffer_name buffer_dtype axes sizes strides contiguity sizeVars =
     (if length axes \<noteq> length strides then Inl CheckFailed
      else
        bind_err
          (index_loop buffer_name axes sizes contiguity sizeVars [0..<length axes]
             \<lparr>strideArgs = [], sizeArgs = [], stride = IntImm 1, index = IntImm 0\<rparr>)
          (\<lambda>st. Inr (Load buffer_name buffer_dtype (index st),
                      \<lparr>arg_name = buffer_name, arg_dtype = buffer_dtype, arg_isVar = False,
                       arg_sizes = sizeArgs st, arg_strides = strideArgs st\<rparr>)))"

text \<open>
  The loop of \<^verbatim>\<open>bindInput\<close> over the declared sizes: the dimension arguments of the
  input tensor and the map from a negative size to its size variable. \<^verbatim>\<open>emplace\<close> keeps
  the variable that a key already has.
\<close>

fun input_dims ::
  "nat \<Rightarrow> nat \<Rightarrow> int list \<Rightarrow> (expr \<times> string) list \<times> (int \<rightharpoonup> expr)
     \<Rightarrow> (expr \<times> string) list \<times> (int \<rightharpoonup> expr)" where
  "input_dims u i [] acc = acc"
| "input_dims u i (sz # rest) (inputTensorDims, sizeVars) =
     (if sz < 0 then
        (let v = Var (''size_'' @ to_string u @ ''_'' @ to_string i) kInt32 0
         in input_dims u (Suc i) rest
              (inputTensorDims @ [(v, [])],
               (if sizeVars sz = None then sizeVars(sz \<mapsto> v) else sizeVars)))
      else
        input_dims u (Suc i) rest
          (inputTensorDims @ [(IntImm (to_int32 sz), ''i'' @ to_string i)], sizeVars))"

text \<open>\<^verbatim>\<open>emplace\<close> on \<^verbatim>\<open>tensors_\<close> and \<^verbatim>\<open>scalars_\<close>.\<close>

definition emplace :: "('a \<rightharpoonup> 'b) \<Rightarrow> 'a \<Rightarrow> 'b \<Rightarrow> ('a \<rightharpoonup> 'b)" where
  "emplace m key val = (if m key = None then m(key \<mapsto> val) else m)"

text \<open>\<^verbatim>\<open>TensorExprKernel::bindInput\<close>.\<close>

definition bindInput :: "TensorExprKernel \<Rightarrow> Value \<Rightarrow> error + TensorExprKernel" where
  "bindInput k input =
     (case v_type input of
        TensorType st sizes strides contiguity \<Rightarrow>
          bind_err (texprType st) (\<lambda>dt.
            let name = ''t'' @ debugName input;
                (inputTensorDims, sizeVars) = input_dims (v_unique input) 0 sizes ([], Map.empty)
            in
              bind_err
                (createInputIndexExpr name dt (axis_vars inputTensorDims) sizes strides
                   contiguity sizeVars)
                (\<lambda>(load, karg).
                   bind_err (Compute ''input'' inputTensorDims (\<lambda>axes. Inr load)) (\<lambda>t.
                     Inr (k\<lparr>tensors_k := emplace (tensors_k k) (v_unique input) t,
                            kernelArgs_k := kernelArgs_k k @ [karg]\<rparr>))))
      | FloatType \<Rightarrow>
          (let v = Var (''v'' @ debugName input) kFloat32 0 in
           Inr (k\<lparr>kernelArgs_k := kernelArgs_k k @
                     [\<lparr>arg_name = ''v'' @ debugName input, arg_dtype = kFloat32, arg_isVar = True,
                       arg_sizes = [], arg_strides = []\<rparr>],
                  scalars_k := emplace (scalars_k k) (v_unique input) v\<rparr>))
      | IntType \<Rightarrow>
          (let v = Var (''v'' @ debugName input) kInt32 0 in
           Inr (k\<lparr>kernelArgs_k := kernelArgs_k k @
                     [\<lparr>arg_name = ''v'' @ debugName input, arg_dtype = kInt32, arg_isVar = True,
                       arg_sizes = [], arg_strides = []\<rparr>],
                  scalars_k := emplace (scalars_k k) (v_unique input) v\<rparr>))
      | _ \<Rightarrow> Inl UnhandledInputType)"

section \<open>Construction of the kernel\<close>

text \<open>
  The subgraph: its inputs, its nodes in order (each with its kind and its outputs) and
  its outputs.
\<close>

record Graph =
  graph_inputs :: "Value list"
  graph_nodes :: "(Symbol \<times> Value list) list"
  graph_outputs :: "Value list"

fun bind_inputs :: "TensorExprKernel \<Rightarrow> Value list \<Rightarrow> error + TensorExprKernel" where
  "bind_inputs k [] = Inr k"
| "bind_inputs k (input # rest) =
     (case bindInput k input of Inl e \<Rightarrow> Inl e | Inr k' \<Rightarrow> bind_inputs k' rest)"

fun compute_outputs ::
  "(fval \<Rightarrow> fval) \<Rightarrow> TensorExprKernel \<Rightarrow> Value list \<Rightarrow> error + TensorExprKernel" where
  "compute_outputs to_float k [] = Inr k"
| "compute_outputs to_float k (output # rest) =
     (if hasUses output then
        (case ComputeValue to_float k output of
           Inl e \<Rightarrow> Inl e
         | Inr t \<Rightarrow>
             compute_outputs to_float
               (k\<lparr>tensors_k := emplace (tensors_k k) (v_unique output) t\<rparr>) rest)
      else compute_outputs to_float k rest)"

fun compute_nodes ::
  "(fval \<Rightarrow> fval) \<Rightarrow> TensorExprKernel \<Rightarrow> (Symbol \<times> Value list) list \<Rightarrow> error + TensorExprKernel" where
  "compute_nodes to_float k [] = Inr k"
| "compute_nodes to_float k ((kind, outputs) # rest) =
     (if kind = prim_Constant \<or> kind = prim_ListConstruct then compute_nodes to_float k rest
      else
        (case compute_outputs to_float k outputs of
           Inl e \<Rightarrow> Inl e
         | Inr k' \<Rightarrow> compute_nodes to_float k' rest))"

fun move_outputs :: "TensorExprKernel \<Rightarrow> Value list \<Rightarrow> error + TensorExprKernel" where
  "move_outputs k [] = Inr k"
| "move_outputs k (output # rest) =
     (case tensors_k k (v_unique output) of
        None \<Rightarrow> Inl OutputMustBeTensor
      | Some t \<Rightarrow>
          move_outputs
            (k\<lparr>tensor_outputs_k := tensor_outputs_k k @ [t],
               tensors_k := (tensors_k k)(v_unique output := None)\<rparr>) rest)"

text \<open>
  The constructor \<^verbatim>\<open>TensorExprKernel(subgraph)\<close>. The kernel starts with empty tables
  and no backend.
\<close>

definition new_kernel :: "(fval \<Rightarrow> fval) \<Rightarrow> Graph \<Rightarrow> error + TensorExprKernel" where
  "new_kernel to_float subgraph =
     bind_err
       (bind_inputs
          \<lparr>n_inputs_k = length (graph_inputs subgraph), tensors_k = Map.empty,
           scalars_k = Map.empty, kernelArgs_k = [], tensor_outputs_k = [],
           backend_type_k = kUninitializedBackend,
           device_k = \<lparr>device_type = kCPU, device_index = 0\<rparr>, codegen_k = None\<rparr>
          (graph_inputs subgraph))
       (\<lambda>k1. bind_err (compute_nodes to_float k1 (graph_nodes subgraph))
          (\<lambda>k2. move_outputs k2 (graph_outputs subgraph)))"

section \<open>Backend selection and lowering to the backend\<close>

text \<open>The process-wide knobs of the GPU tiling; a value that is not positive is unset.\<close>

record TEKnobs =
  te_cuda_pointwise_loop_levels :: int
  te_cuda_pointwise_block_count :: int
  te_cuda_pointwise_block_size :: int

text \<open>
  The flattened index of a GPU output: from the innermost axis outwards, the index of
  an axis is the running value modulo the extent of the axis (the running value itself
  for the outermost axis), and the running value is divided by the extent.
\<close>

fun flat_loop :: "expr list \<Rightarrow> nat list \<Rightarrow> expr \<Rightarrow> expr list \<Rightarrow> expr list" where
  "flat_loop ds [] val acc = acc"
| "flat_loop ds (i # is) val acc =
     flat_loop ds is (Div val (ds ! i)) (acc @ [if i > 0 then Mod val (ds ! i) else val])"

definition flatten_output :: "Tensor \<Rightarrow> error + Tensor" where
  "flatten_output tensor =
     (case dims tensor of
        [] \<Rightarrow> Inl CheckFailed
      | d0 # ds \<Rightarrow>
          Compute (func_name tensor @ ''_flat'') [(foldl Mul d0 ds, [])]
            (\<lambda>axes. Inr (FunctionCall tensor
               (rev (flat_loop (dims tensor) (rev [0..<length (dims tensor)]) (axes ! 0) [])))))"

fun flatten_outputs :: "Tensor list \<Rightarrow> error + Tensor list" where
  "flatten_outputs [] = Inr []"
| "flatten_outputs (t # ts) =
     (case flatten_output t of
        Inl e \<Rightarrow> Inl e
      | Inr t' \<Rightarrow> (case flatten_outputs ts of Inl e \<Rightarrow> Inl e | Inr ts' \<Rightarrow> Inr (t' # ts')))"

fun is_IntImm :: "expr \<Rightarrow> bool" where
  "is_IntImm (IntImm _) = True"
| "is_IntImm _ = False"

definition cuda_tiling :: "TEKnobs \<Rightarrow> Tensor \<Rightarrow> error + Tiling" where
  "cuda_tiling knobs out =
     (if list_ex (\<lambda>d. \<not> is_IntImm d) (dims out) then Inr NoTiling
      else
        let loop_levels =
              (if te_cuda_pointwise_loop_levels knobs > 0
               then te_cuda_pointwise_loop_levels knobs else 2);
            block_count = te_cuda_pointwise_block_count knobs;
            block_size = te_cuda_pointwise_block_size knobs
        in
          if loop_levels = 2 then Inr (SplitTwo (if block_size < 0 then 512 else block_size))
          else if loop_levels = 3 then
            Inr (SplitThree (if block_count > 0 then block_count else 1280)
                   (if block_size > 0 then block_size else 256))
          else Inl (InvalidLoopLevel loop_levels))"

fun cuda_tilings :: "TEKnobs \<Rightarrow> Tensor list \<Rightarrow> error + Tiling list" where
  "cuda_tilings knobs [] = Inr []"
| "cuda_tilings knobs (t # ts) =
     (case cuda_tiling knobs t of
        Inl e \<Rightarrow> Inl e
      | Inr x \<Rightarrow> (case cuda_tilings knobs ts of Inl e \<Rightarrow> Inl e | Inr xs \<Rightarrow> Inr (x # xs)))"

text \<open>The name hint of a size or stride variable, as a formal parameter.\<close>

fun var_name :: "expr \<Rightarrow> string" where
  "var_name (Var name _ _) = name"
| "var_name _ = []"

definition kernel_params :: "KernelArg list \<Rightarrow> Tensor list \<Rightarrow> string list" where
  "kernel_params kargs outs =
     concat (map (\<lambda>a. arg_name a # map (\<lambda>s. var_name (snd s)) (arg_sizes a)
                          @ map (\<lambda>s. var_name (snd s)) (arg_strides a)) kargs)
     @ map func_name outs"

text \<open>
  \<^verbatim>\<open>TensorExprKernel::LowerToBackend\<close>. The name of the code generator is chosen by
  the member \<^verbatim>\<open>backend_type_\<close>, the restructuring by the argument. The requests to
  inline the tensors (\<^verbatim>\<open>ComputeInline\<close>) act on the scheduler alone and are not kept.
\<close>

definition LowerToBackend ::
  "TEKnobs \<Rightarrow> TensorExprKernel \<Rightarrow> BackendType \<Rightarrow> error + TensorExprKernel" where
  "LowerToBackend knobs k backend_type =
     bind_err
       (if backend_type = kCudaCodeGen then flatten_outputs (tensor_outputs_k k)
        else Inr (tensor_outputs_k k))
       (\<lambda>tensor_outputs.
          bind_err
            (if backend_type = kCudaCodeGen then cuda_tilings knobs (tensor_outputs_k k)
             else Inr (map (\<lambda>t. NoTiling) tensor_outputs))
            (\<lambda>tiling.
               bind_err
                 (case backend_type_k k of
                    kCudaCodeGen \<Rightarrow> Inr ''cuda_codegen''
                  | kLLVMCodeGen \<Rightarrow> Inr ''llvm_codegen''
                  | kSimpleIREval \<Rightarrow> Inr ''simple_ir_eval''
                  | kUninitializedBackend \<Rightarrow> Inl InvalidBackendType)
                 (\<lambda>name.
                    Inr (k\<lparr>codegen_k :=
                             Some \<lparr>codegen_name = name,
                                   codegen_params =
                                     kernel_params (kernelArgs_k k) tensor_outputs,
                                   codegen_outputs = tensor_outputs,
                                   codegen_tiling = tiling\<rparr>\<rparr>))))"

text \<open>The device of the first tensor among the inputs.\<close>

fun first_tensor_device :: "IValue list \<Rightarrow> error + Device" where
  "first_tensor_device [] = Inl NoTensorInputs"
| "first_tensor_device (ITensor t # rest) = Inr (tensor_device t)"
| "first_tensor_device (_ # rest) = first_tensor_device rest"

text \<open>
  The backend of a device; \<open>enable_llvm\<close> says whether the build defines
  \<^verbatim>\<open>ENABLE_LLVM\<close>.
\<close>

definition backend_of_device :: "bool \<Rightarrow> Device \<Rightarrow> error + BackendType" where
  "backend_of_device enable_llvm dev =
     (if device_type dev = kCUDA then Inr kCudaCodeGen
      else if device_type dev = kCPU then
        Inr (if enable_llvm then kLLVMCodeGen else kSimpleIREval)
      else Inl InvalidDeviceType)"

text \<open>
  \<^verbatim>\<open>TensorExprKernel::PickAndCheckBackendType\<close>. It returns the error it throws, if
  any, and the kernel as the call leaves it: the backend and the device are stored
  before \<^verbatim>\<open>LowerToBackend\<close> runs, and stay stored when it throws.
\<close>

definition PickAndCheckBackendType ::
  "bool \<Rightarrow> TEKnobs \<Rightarrow> TensorExprKernel \<Rightarrow> IValue list \<Rightarrow> error option \<times> TensorExprKernel" where
  "PickAndCheckBackendType enable_llvm knobs k inputs =
     (case first_tensor_device inputs of
        Inl e \<Rightarrow> (Some e, k)
      | Inr dev \<Rightarrow>
          (case backend_of_device enable_llvm dev of
             Inl e \<Rightarrow> (Some e, k)
           | Inr backend_type \<Rightarrow>
               if backend_type_k k = kUninitializedBackend then
                 (let k1 = k\<lparr>backend_type_k := backend_type, device_k := dev\<rparr> in
                  case LowerToBackend knobs k1 backend_type of
                    Inl e \<Rightarrow> (Some e, k1)
                  | Inr k2 \<Rightarrow> (None, k2))
               else if backend_type_k k \<noteq> backend_type then (Some InconsistentBackendType, k)
               else (None, k)))"

section \<open>Running the kernel\<close>

text \<open>
  An argument of the call of the compiled kernel: a 32-bit integer (as the integer it
  denotes), a \<^verbatim>\<open>float\<close>, or a data pointer.
\<close>

datatype CallArg = CallArg_int int | CallArg_float fval | CallArg_ptr nat

text \<open>\<^verbatim>\<open>tensorType\<close>: the scalar type of the elements of a symbolic tensor.\<close>

definition tensorType :: "Tensor \<Rightarrow> error + ScalarType" where
  "tensorType t =
     (if tensor_dtype t = kInt32 then Inr ScalarType_Int
      else if tensor_dtype t = kFloat32 then Inr ScalarType_Float
      else Inl UnhandledDatatype)"

text \<open>
  The arguments of one tensor input: for every registered size variable the size of
  the tensor at the variable's axis, cut to 32 bits and recorded in \<open>varToSize\<close> under
  the variable; then for every registered stride variable the stride at its axis, cut
  to 32 bits.
\<close>

fun size_args ::
  "int list \<Rightarrow> (int \<times> expr) list \<Rightarrow> CallArg list \<times> (expr \<rightharpoonup> int)
     \<Rightarrow> error + CallArg list \<times> (expr \<rightharpoonup> int)" where
  "size_args sizes [] acc = Inr acc"
| "size_args sizes ((idx, v) # rest) (run_args, varToSize) =
     (if 0 \<le> idx \<and> nat idx < length sizes then
        (let s = to_int32 (sizes ! nat idx)
         in size_args sizes rest (run_args @ [CallArg_int s], varToSize(v \<mapsto> s)))
      else Inl OutOfRange)"

fun stride_args :: "int list \<Rightarrow> (int \<times> expr) list \<Rightarrow> CallArg list \<Rightarrow> error + CallArg list" where
  "stride_args strides [] run_args = Inr run_args"
| "stride_args strides ((idx, v) # rest) run_args =
     (if 0 \<le> idx \<and> nat idx < length strides then
        stride_args strides rest (run_args @ [CallArg_int (to_int32 (strides ! nat idx))])
      else Inl OutOfRange)"

text \<open>
  The loop of \<^verbatim>\<open>run\<close> over the inputs; \<open>i\<close> is the position of the input. The
  conversion of a \<^verbatim>\<open>double\<close> argument to \<^verbatim>\<open>float\<close> is the parameter \<open>to_float\<close>. An input
  that is no integer, double or tensor adds no argument.
\<close>

fun input_args ::
  "(fval \<Rightarrow> fval) \<Rightarrow> KernelArg list \<Rightarrow> nat \<Rightarrow> IValue list \<Rightarrow> CallArg list \<times> (expr \<rightharpoonup> int)
     \<Rightarrow> error + CallArg list \<times> (expr \<rightharpoonup> int)" where
  "input_args to_float kargs i [] acc = Inr acc"
| "input_args to_float kargs i (IInt n # rest) (run_args, varToSize) =
     input_args to_float kargs (Suc i) rest (run_args @ [CallArg_int (to_int32 n)], varToSize)"
| "input_args to_float kargs i (IDouble d # rest) (run_args, varToSize) =
     input_args to_float kargs (Suc i) rest (run_args @ [CallArg_float (to_float d)], varToSize)"
| "input_args to_float kargs i (ITensor t # rest) (run_args, varToSize) =
     (if i < length kargs then
        (case size_args (tensor_sizes t) (arg_sizes (kargs ! i))
                (run_args @ [CallArg_ptr (tensor_data_ptr t)], varToSize) of
           Inl e \<Rightarrow> Inl e
         | Inr (run_args1, varToSize1) \<Rightarrow>
             (case stride_args (tensor_strides t) (arg_strides (kargs ! i)) run_args1 of
                Inl e \<Rightarrow> Inl e
              | Inr run_args2 \<Rightarrow>
                  input_args to_float kargs (Suc i) rest (run_args2, varToSize1)))
      else Inl OutOfRange)"
| "input_args to_float kargs i (_ # rest) acc = input_args to_float kargs (Suc i) rest acc"

text \<open>
  The size of an output, dimension by dimension: the observed size of a variable that
  \<open>varToSize\<close> knows, the constant of an integer immediate, and a failed check for
  anything else.
\<close>

fun output_size :: "(expr \<rightharpoonup> int) \<Rightarrow> expr list \<Rightarrow> error + int list" where
  "output_size varToSize [] = Inr []"
| "output_size varToSize (d # ds) =
     (case (case varToSize d of
              Some s \<Rightarrow> Inr s
            | None \<Rightarrow> (case d of IntImm n \<Rightarrow> Inr n | _ \<Rightarrow> Inl CheckFailed)) of
        Inl e \<Rightarrow> Inl e
      | Inr s \<Rightarrow> (case output_size varToSize ds of Inl e \<Rightarrow> Inl e | Inr ss \<Rightarrow> Inr (s # ss)))"

text \<open>
  The outputs: each is allocated with its size, on the kernel's device, and its data
  pointer is appended to the arguments. The allocator is outside the sources at hand;
  \<open>alloc j\<close> is the address it gives the \<open>j\<close>-th output, and the strides of the new
  tensor are left empty.
\<close>

fun alloc_outputs ::
  "(nat \<Rightarrow> nat) \<Rightarrow> Device \<Rightarrow> (expr \<rightharpoonup> int) \<Rightarrow> Tensor list \<Rightarrow> (ScalarType \<times> at_Tensor) list
     \<Rightarrow> CallArg list \<Rightarrow> error + (ScalarType \<times> at_Tensor) list \<times> CallArg list" where
  "alloc_outputs alloc dev varToSize [] outputs run_args = Inr (outputs, run_args)"
| "alloc_outputs alloc dev varToSize (t # ts) outputs run_args =
     (case output_size varToSize (dims t) of
        Inl e \<Rightarrow> Inl e
      | Inr tensorSize \<Rightarrow>
          (case tensorType t of
             Inl e \<Rightarrow> Inl e
           | Inr st \<Rightarrow>
               alloc_outputs alloc dev varToSize ts
                 (outputs @
                    [(st, \<lparr>tensor_device = dev, tensor_sizes = tensorSize, tensor_strides = [],
                            tensor_data_ptr = alloc (length outputs)\<rparr>)])
                 (run_args @ [CallArg_ptr (alloc (length outputs))])))"

text \<open>
  \<^verbatim>\<open>CodeGenRun\<close>: the call of the compiled kernel with the arguments. The call itself is
  outside the sources at hand; what is kept of it are the code generator called and the
  arguments.
\<close>

definition CodeGenRun :: "TensorExprKernel \<Rightarrow> CallArg list \<Rightarrow> error + CodeGen \<times> CallArg list" where
  "CodeGenRun k run_args =
     (case backend_type_k k of
        kUninitializedBackend \<Rightarrow> Inl InvalidBackendType
      | _ \<Rightarrow> (case codegen_k k of None \<Rightarrow> Inl CheckFailed | Some cg \<Rightarrow> Inr (cg, run_args)))"

text \<open>
  What a run that succeeds leaves behind: the call made, the outputs (with their scalar
  types) and the stack with the inputs dropped and the outputs pushed.
\<close>

record run_result =
  run_codegen :: CodeGen
  run_call_args :: "CallArg list"
  run_outputs :: "(ScalarType \<times> at_Tensor) list"
  run_stack :: "IValue list"

text \<open>
  \<^verbatim>\<open>TensorExprKernel::run\<close>. The result is what the run leaves behind, or the error it
  fails with, together with the kernel after the call.
\<close>

definition run ::
  "bool \<Rightarrow> TEKnobs \<Rightarrow> (fval \<Rightarrow> fval) \<Rightarrow> (nat \<Rightarrow> nat) \<Rightarrow> TensorExprKernel \<Rightarrow> IValue list
     \<Rightarrow> (error + run_result) \<times> TensorExprKernel" where
  "run enable_llvm knobs to_float alloc k stack =
     (if length stack < n_inputs_k k then (Inl OutOfRange, k)
      else
        let inputs = drop (length stack - n_inputs_k k) stack in
        case PickAndCheckBackendType enable_llvm knobs k inputs of
          (Some e, k1) \<Rightarrow> (Inl e, k1)
        | (None, k1) \<Rightarrow>
            (bind_err (input_args to_float (kernelArgs_k k1) 0 inputs ([], Map.empty))
               (\<lambda>(run_args, varToSize).
                  bind_err
                    (alloc_outputs alloc (device_k k1) varToSize (tensor_outputs_k k1) [] run_args)
                    (\<lambda>(outputs, run_args1).
                       bind_err (CodeGenRun k1 run_args1)
                         (\<lambda>(cg, call_args).
                            Inr \<lparr>run_codegen = cg, run_call_args = call_args,
                                 run_outputs = outputs,
                                 run_stack = take (length stack - n_inputs_k k) stack
                                   @ map (\<lambda>out. ITensor (snd out)) outputs\<rparr>))),
             k1))"

text \<open>
  The two-operand expressions of the table that combine their operands by arithmetic
  alone: those of \<open>mul\<close>, \<open>div\<close>, \<open>min\<close> and \<open>max\<close>, and of \<open>add\<close> and \<open>sub\<close> before the
  scale.
\<close>

definition arithmetic_templates :: "(expr \<Rightarrow> expr \<Rightarrow> expr) list" where
  "arithmetic_templates =
     [Add, Sub, Mul, Div, (\<lambda>lhs rhs. Min lhs rhs False), (\<lambda>lhs rhs. Max lhs rhs False)]"

section \<open>The value of an index expression\<close>

text \<open>
  The integer that an index expression denotes under an assignment: sums, differences
  and products of integer constants, in unbounded integers; a variable or any other
  expression is read from the assignment.
\<close>

fun index_value :: "(expr \<Rightarrow> int) \<Rightarrow> expr \<Rightarrow> int" where
  "index_value env (IntImm n) = n"
| "index_value env (Add a b) = index_value env a + index_value env b"
| "index_value env (Sub a b) = index_value env a - index_value env b"
| "index_value env (Mul a b) = index_value env a * index_value env b"
| "index_value env e = env e"

section \<open>Concrete kernels and graph values used as test inputs\<close>

text \<open>A kernel before anything is bound: no tensors, no scalars, no backend.\<close>

definition empty_kernel :: TensorExprKernel where
  "empty_kernel =
     \<lparr>n_inputs_k = 0, tensors_k = Map.empty, scalars_k = Map.empty, kernelArgs_k = [],
      tensor_outputs_k = [], backend_type_k = kUninitializedBackend,
      device_k = \<lparr>device_type = kCPU, device_index = 0\<rparr>, codegen_k = None\<rparr>"

text \<open>A graph constant of the given value, produced by a \<^verbatim>\<open>prim::Constant\<close> node.\<close>

definition const_value :: "nat \<Rightarrow> JitType \<Rightarrow> IValue \<Rightarrow> Value" where
  "const_value u ty c = Value u [] ty 0 True prim_Constant [] (Some c) []"

text \<open>Run-time tensors on a CPU and on a GPU, and default knobs.\<close>

definition cpu_tensor :: "int list \<Rightarrow> int list \<Rightarrow> at_Tensor" where
  "cpu_tensor sizes strides =
     \<lparr>tensor_device = \<lparr>device_type = kCPU, device_index = 0\<rparr>, tensor_sizes = sizes,
      tensor_strides = strides, tensor_data_ptr = 4096\<rparr>"

definition cuda_tensor :: "int list \<Rightarrow> int list \<Rightarrow> at_Tensor" where
  "cuda_tensor sizes strides =
     \<lparr>tensor_device = \<lparr>device_type = kCUDA, device_index = 0\<rparr>, tensor_sizes = sizes,
      tensor_strides = strides, tensor_data_ptr = 8192\<rparr>"

definition default_knobs :: TEKnobs where
  "default_knobs =
     \<lparr>te_cuda_pointwise_loop_levels = - 1, te_cuda_pointwise_block_count = - 1,
      te_cuda_pointwise_block_size = - 1\<rparr>"

text \<open>A kernel of one input whose backend is the interpreted CPU backend.\<close>

definition cpu_locked_kernel :: TensorExprKernel where
  "cpu_locked_kernel = empty_kernel\<lparr>n_inputs_k := 1, backend_type_k := kSimpleIREval\<rparr>"

text \<open>
  A graph of one float input \<open>x\<close> of two axes, the outer of a size unknown at compile
  time and the inner of size 3, and one node \<open>y = relu(x)\<close>, which is the output.
\<close>

definition dyn_x :: Value where
  "dyn_x = Value 0 ''x'' (TensorType ScalarType_Float [- 1, 3] [3, 1] [True, True]) 0 True
     prim_Param [] None []"

definition dyn_y :: Value where
  "dyn_y = Value 1 ''y'' (TensorType ScalarType_Float [- 1, 3] [3, 1] [True, True]) 0 True
     aten_relu [dyn_x] None []"

definition dyn_graph :: Graph where
  "dyn_graph =
     \<lparr>graph_inputs = [dyn_x], graph_nodes = [(aten_relu, [dyn_y])], graph_outputs = [dyn_y]\<rparr>"

text \<open>The kernel constructed for this graph.\<close>

definition dyn_kernel :: TensorExprKernel where
  "dyn_kernel = (case new_kernel id dyn_graph of Inr k \<Rightarrow> k | Inl e \<Rightarrow> empty_kernel)"

text \<open>
  Its output tensor, and the kernel as the first run on a CPU tensor leaves it, in a
  build without native code generation.
\<close>

definition dyn_out :: Tensor where
  "dyn_out = hd (tensor_outputs_k dyn_kernel)"

definition dyn_compiled :: TensorExprKernel where
  "dyn_compiled =
     dyn_kernel
       \<lparr>backend_type_k := kSimpleIREval,
        device_k := \<lparr>device_type = kCPU, device_index = 0\<rparr>,
        codegen_k :=
          Some \<lparr>codegen_name = ''simple_ir_eval'',
                codegen_params = [''tx'', ''size_0_0'', ''aten_relu''],
                codegen_outputs = [dyn_out], codegen_tiling = [NoTiling]\<rparr>\<rparr>"

text \<open>
  The same compiled kernel with the size variable of its input not registered, so that
  no run binds the variable of the output's first dimension.
\<close>

definition unbound_kernel :: TensorExprKernel where
  "unbound_kernel =
     dyn_compiled
       \<lparr>kernelArgs_k :=
          [\<lparr>arg_name = ''tx'', arg_dtype = kFloat32, arg_isVar = False, arg_sizes = [],
            arg_strides = []\<rparr>]\<rparr>"


text \<open>
  A float input \<open>x\<close> of four elements and an integer input \<open>n\<close> of four elements, the
  kernel that binds both, constants, and nodes over them.
\<close>

definition flt_x :: Value where
  "flt_x = Value 0 ''x'' (TensorType ScalarType_Float [4] [1] [True]) 0 True prim_Param [] None []"

definition int_n :: Value where
  "int_n = Value 1 ''n'' (TensorType ScalarType_Int [4] [1] [True]) 0 True prim_Param [] None []"

definition xn_kernel :: TensorExprKernel where
  "xn_kernel = (case bind_inputs empty_kernel [flt_x, int_n] of Inr k \<Rightarrow> k | Inl e \<Rightarrow> empty_kernel)"

definition flt_x_tensor :: Tensor where
  "flt_x_tensor =
     Tensor ''input'' [IntImm 4] [Var ''i0'' kInt32 0]
       (Load ''tx'' kFloat32 (Add (IntImm 0) (Mul (Var ''i0'' kInt32 0) (IntImm 1))))"

definition int_n_tensor :: Tensor where
  "int_n_tensor =
     Tensor ''input'' [IntImm 4] [Var ''i0'' kInt32 0]
       (Load ''tn'' kInt32 (Add (IntImm 0) (Mul (Var ''i0'' kInt32 0) (IntImm 1))))"

definition none_const :: "nat \<Rightarrow> Value" where
  "none_const u = const_value u NoneType INone"

definition node_value :: "nat \<Rightarrow> ScalarType \<Rightarrow> Symbol \<Rightarrow> Value list \<Rightarrow> Value" where
  "node_value u st kind ins =
     Value u ''z'' (TensorType st [4] [1] [True]) 0 True kind ins None []"

text \<open>
  Three float inputs of 2, 3 and 4 elements, the kernel that binds them, and the node
  \<open>cat([a, b, c], 0)\<close> of 9 elements.
\<close>

definition cat_input :: "nat \<Rightarrow> string \<Rightarrow> int \<Rightarrow> Value" where
  "cat_input u name n =
     Value u name (TensorType ScalarType_Float [n] [1] [True]) 0 True prim_Param [] None []"

definition cat_kernel :: TensorExprKernel where
  "cat_kernel =
     (case bind_inputs empty_kernel
             [cat_input 0 ''a'' 2, cat_input 1 ''b'' 3, cat_input 2 ''c'' 4] of
        Inr k \<Rightarrow> k
      | Inl e \<Rightarrow> empty_kernel)"

definition cat_tensor :: "string \<Rightarrow> int \<Rightarrow> Tensor" where
  "cat_tensor name n =
     Tensor ''input'' [IntImm n] [Var ''i0'' kInt32 0]
       (Load (''t'' @ name) kFloat32 (Add (IntImm 0) (Mul (Var ''i0'' kInt32 0) (IntImm 1))))"

definition cat_node :: Value where
  "cat_node =
     Value 5 ''z'' (TensorType ScalarType_Float [9] [1] [True]) 0 True aten_cat
       [Value 3 ''l'' ListType 0 True prim_ListConstruct
          [cat_input 0 ''a'' 2, cat_input 1 ''b'' 3, cat_input 2 ''c'' 4] None [],
        Value 4 ''d'' IntType 0 True prim_Constant [] (Some (IInt 0)) [(''value'', 0)]]
       None []"

text \<open>The assignment that gives every variable the value \<open>n\<close>.\<close>

definition all_axes_at :: "int \<Rightarrow> expr \<Rightarrow> int" where
  "all_axes_at n e = n"



section \<open>Verified properties\<close>

subsection \<open>Broadcasting\<close>

lemma broadcast_loop_length:
  "length (broadcast_loop xs ys ret) = length ret + max (length xs) (length ys)"
  by (induction xs ys ret rule: broadcast_loop.induct) auto

lemma broadcast_loop_prefix:
  "i < length ret \<Longrightarrow> broadcast_loop xs ys ret ! i = ret ! i"
  by (induction xs ys ret rule: broadcast_loop.induct) (auto simp: nth_append)

lemma broadcast_loop_nth:
  "i < max (length xs) (length ys) \<Longrightarrow>
   broadcast_loop xs ys ret ! (length ret + i) =
     (if i < length xs then
        (if i < length ys then (if isOne (xs ! i) then ys ! i else xs ! i) else xs ! i)
      else ys ! i)"
proof (induction xs ys ret arbitrary: i rule: broadcast_loop.induct)
  case (1 ret)
  then show ?case by simp
next
  case (2 b bs ret)
  show ?case
  proof (cases i)
    case 0
    then show ?thesis by (simp add: broadcast_loop_prefix)
  next
    case (Suc j)
    with 2 show ?thesis by simp
  qed
next
  case (3 a as ret)
  show ?case
  proof (cases i)
    case 0
    then show ?thesis by (simp add: broadcast_loop_prefix)
  next
    case (Suc j)
    with 3 show ?thesis by simp
  qed
next
  case (4 a as b bs ret)
  show ?case
  proof (cases i)
    case 0
    then show ?thesis by (simp add: broadcast_loop_prefix)
  next
    case (Suc j)
    with 4 show ?thesis by simp
  qed
qed

text \<open>
  Claim C1. The broadcast of two shapes has the rank of the longer one. Counting axes
  from the innermost (position \<open>i\<close> of the reversed shapes), the result axis is the
  axis of \<open>b\<close> where the axis of \<open>a\<close> is the constant 1 and the axis of \<open>a\<close> otherwise;
  where one operand has no axis at that position the result is the other operand's
  axis. A value with no symbolic tensor has the shape \<open>[1]\<close>. The shapes \<open>[5,1]\<close> and
  \<open>[3]\<close> broadcast to \<open>[5,3]\<close>.
\<close>

theorem broadcastShapes_rank_and_axes:
  "length (broadcastShapes a b) = max (length a) (length b)
   \<and> (\<forall>i < max (length a) (length b).
        rev (broadcastShapes a b) ! i =
          (if i < length a then
             (if i < length b then (if isOne (rev a ! i) then rev b ! i else rev a ! i)
              else rev a ! i)
           else rev b ! i))
   \<and> (tensors_k k (v_unique v) = None \<longrightarrow> valueShape k v = [IntImm 1])
   \<and> broadcastShapes [IntImm 5, IntImm 1] [IntImm 3] = [IntImm 5, IntImm 3]"
proof (intro conjI allI impI)
  show "length (broadcastShapes a b) = max (length a) (length b)"
    by (simp add: broadcastShapes_def broadcast_loop_length)
next
  fix i assume "i < max (length a) (length b)"
  then show "rev (broadcastShapes a b) ! i =
          (if i < length a then
             (if i < length b then (if isOne (rev a ! i) then rev b ! i else rev a ! i)
              else rev a ! i)
           else rev b ! i)"
    using broadcast_loop_nth [of i "rev a" "rev b" "[]"]
    by (simp add: broadcastShapes_def)
next
  assume "tensors_k k (v_unique v) = None"
  then show "valueShape k v = [IntImm 1]" by (simp add: valueShape_def)
next
  show "broadcastShapes [IntImm 5, IntImm 1] [IntImm 3] = [IntImm 5, IntImm 3]"
    by (simp add: broadcastShapes_def)
qed

theorem broadcastShapes_rank_and_axes_witness:
  "length (broadcastShapes [IntImm 5, IntImm 1] [IntImm 3]) = 2
   \<and> rev (broadcastShapes [IntImm 5, IntImm 1] [IntImm 3]) ! 0 = IntImm 3
   \<and> rev (broadcastShapes [IntImm 5, IntImm 1] [IntImm 3]) ! 1 = IntImm 5
   \<and> valueShape empty_kernel (const_value 7 FloatType (IDouble (Fin 2))) = [IntImm 1]"
proof -
  note T = broadcastShapes_rank_and_axes
    [of "[IntImm 5, IntImm 1]" "[IntImm 3]" empty_kernel "const_value 7 FloatType (IDouble (Fin 2))"]
  have len: "length (broadcastShapes [IntImm 5, IntImm 1] [IntImm 3]) = 2"
    using T by simp
  have ax: "\<forall>i < max (length [IntImm 5, IntImm 1]) (length [IntImm 3]).
        rev (broadcastShapes [IntImm 5, IntImm 1] [IntImm 3]) ! i =
          (if i < length [IntImm 5, IntImm 1] then
             (if i < length [IntImm 3] then
                (if isOne (rev [IntImm 5, IntImm 1] ! i) then rev [IntImm 3] ! i
                 else rev [IntImm 5, IntImm 1] ! i)
              else rev [IntImm 5, IntImm 1] ! i)
           else rev [IntImm 3] ! i)"
    using T by blast
  have a0: "rev (broadcastShapes [IntImm 5, IntImm 1] [IntImm 3]) ! 0 = IntImm 3"
    using ax [rule_format, of 0] by simp
  have a1: "rev (broadcastShapes [IntImm 5, IntImm 1] [IntImm 3]) ! 1 = IntImm 5"
    using ax [rule_format, of 1] by simp
  have "tensors_k empty_kernel (v_unique (const_value 7 FloatType (IDouble (Fin 2)))) = None"
    by (simp add: empty_kernel_def)
  with T have sh: "valueShape empty_kernel (const_value 7 FloatType (IDouble (Fin 2))) = [IntImm 1]"
    by blast
  from len a0 a1 sh show ?thesis by blast
qed

subsection \<open>Strength reduction of pow\<close>






subsection \<open>The backend-selection state machine\<close>

lemma first_tensor_device_none:
  "first_tensor_device inputs = Inl e \<Longrightarrow> e = NoTensorInputs"
  by (induction inputs rule: first_tensor_device.induct) auto

lemma LowerToBackend_backend:
  "LowerToBackend knobs k b = Inr k' \<Longrightarrow>
     backend_type_k k' = backend_type_k k \<and> device_k k' = device_k k"
  by (auto simp: LowerToBackend_def bind_err_def split: sum.splits if_splits BackendType.splits)

lemma PickAndCheck_first:
  assumes "backend_type_k k = kUninitializedBackend"
    and "first_tensor_device inputs = Inr dev"
    and "backend_of_device enable_llvm dev = Inr b"
  shows "backend_type_k (snd (PickAndCheckBackendType enable_llvm knobs k inputs)) = b
     \<and> device_k (snd (PickAndCheckBackendType enable_llvm knobs k inputs)) = dev"
proof (cases "LowerToBackend knobs (k\<lparr>backend_type_k := b, device_k := dev\<rparr>) b")
  case (Inl e)
  with assms show ?thesis by (simp add: PickAndCheckBackendType_def)
next
  case (Inr k2)
  from LowerToBackend_backend [OF Inr] Inr assms show ?thesis
    by (simp add: PickAndCheckBackendType_def)
qed

text \<open>
  Claim C6. On a kernel with no backend yet, the call stores the backend of the device
  of the first tensor argument: the GPU backend for a GPU device, for a CPU device the
  native backend when the build has native code generation and the interpreted one
  otherwise; a device of another kind is an invalid-device error and a call without a
  tensor a no-tensor-inputs error, both leaving the kernel as it was. Once a backend is
  stored it stays: a call whose first tensor maps to another backend fails with the
  backend-inconsistency error and leaves the kernel unchanged (nothing is lowered or
  generated again), and the run fails with that error before any argument is set up or
  the kernel is called; a call whose device maps to the stored backend succeeds and
  leaves the kernel, with its code generator, unchanged.
\<close>

theorem backend_selection_state_machine:
  "(backend_type_k k = kUninitializedBackend \<and> first_tensor_device inputs = Inr dev \<longrightarrow>
      (device_type dev = kCUDA \<longrightarrow>
         backend_type_k (snd (PickAndCheckBackendType enable_llvm knobs k inputs)) = kCudaCodeGen
         \<and> device_k (snd (PickAndCheckBackendType enable_llvm knobs k inputs)) = dev)
    \<and> (device_type dev = kCPU \<longrightarrow>
         backend_type_k (snd (PickAndCheckBackendType enable_llvm knobs k inputs))
           = (if enable_llvm then kLLVMCodeGen else kSimpleIREval)
         \<and> device_k (snd (PickAndCheckBackendType enable_llvm knobs k inputs)) = dev)
    \<and> (device_type dev = kOtherDeviceType \<longrightarrow>
         PickAndCheckBackendType enable_llvm knobs k inputs = (Some InvalidDeviceType, k)))
   \<and> (list_all (\<lambda>x. \<forall>t. x \<noteq> ITensor t) inputs \<longrightarrow>
        PickAndCheckBackendType enable_llvm knobs k inputs = (Some NoTensorInputs, k))
   \<and> (backend_type_k k \<noteq> kUninitializedBackend \<and> first_tensor_device inputs = Inr dev
        \<and> backend_of_device enable_llvm dev = Inr b \<and> b \<noteq> backend_type_k k \<longrightarrow>
        PickAndCheckBackendType enable_llvm knobs k inputs = (Some InconsistentBackendType, k)
        \<and> (n_inputs_k k \<le> length stack
             \<and> inputs = drop (length stack - n_inputs_k k) stack \<longrightarrow>
            run enable_llvm knobs to_float alloc k stack = (Inl InconsistentBackendType, k)))
   \<and> (backend_type_k k \<noteq> kUninitializedBackend \<and> first_tensor_device inputs = Inr dev
        \<and> backend_of_device enable_llvm dev = Inr (backend_type_k k) \<longrightarrow>
        PickAndCheckBackendType enable_llvm knobs k inputs = (None, k))
   \<and> (backend_type_k k \<noteq> kUninitializedBackend \<longrightarrow>
        snd (PickAndCheckBackendType enable_llvm knobs k inputs) = k)"
proof (intro conjI impI)
  assume a: "backend_type_k k = kUninitializedBackend \<and> first_tensor_device inputs = Inr dev"
    and c: "device_type dev = kCUDA"
  from c have "backend_of_device enable_llvm dev = Inr kCudaCodeGen"
    by (simp add: backend_of_device_def)
  with a PickAndCheck_first
  show "backend_type_k (snd (PickAndCheckBackendType enable_llvm knobs k inputs)) = kCudaCodeGen"
    and "device_k (snd (PickAndCheckBackendType enable_llvm knobs k inputs)) = dev"
    by blast+
next
  assume a: "backend_type_k k = kUninitializedBackend \<and> first_tensor_device inputs = Inr dev"
    and c: "device_type dev = kCPU"
  from c have "backend_of_device enable_llvm dev
      = Inr (if enable_llvm then kLLVMCodeGen else kSimpleIREval)"
    by (simp add: backend_of_device_def)
  with a PickAndCheck_first
  show "backend_type_k (snd (PickAndCheckBackendType enable_llvm knobs k inputs))
           = (if enable_llvm then kLLVMCodeGen else kSimpleIREval)"
    and "device_k (snd (PickAndCheckBackendType enable_llvm knobs k inputs)) = dev"
    by blast+
next
  assume "backend_type_k k = kUninitializedBackend \<and> first_tensor_device inputs = Inr dev"
    and "device_type dev = kOtherDeviceType"
  then show "PickAndCheckBackendType enable_llvm knobs k inputs = (Some InvalidDeviceType, k)"
    by (simp add: PickAndCheckBackendType_def backend_of_device_def)
next
  assume "list_all (\<lambda>x. \<forall>t. x \<noteq> ITensor t) inputs"
  then have "first_tensor_device inputs = Inl NoTensorInputs"
    by (induction inputs rule: first_tensor_device.induct) auto
  then show "PickAndCheckBackendType enable_llvm knobs k inputs = (Some NoTensorInputs, k)"
    by (simp add: PickAndCheckBackendType_def)
next
  assume a: "backend_type_k k \<noteq> kUninitializedBackend \<and> first_tensor_device inputs = Inr dev
        \<and> backend_of_device enable_llvm dev = Inr b \<and> b \<noteq> backend_type_k k"
  then show p: "PickAndCheckBackendType enable_llvm knobs k inputs
      = (Some InconsistentBackendType, k)"
    by (auto simp: PickAndCheckBackendType_def)
  assume "n_inputs_k k \<le> length stack \<and> inputs = drop (length stack - n_inputs_k k) stack"
  with p show "run enable_llvm knobs to_float alloc k stack = (Inl InconsistentBackendType, k)"
    by (simp add: run_def)
next
  assume "backend_type_k k \<noteq> kUninitializedBackend \<and> first_tensor_device inputs = Inr dev
        \<and> backend_of_device enable_llvm dev = Inr (backend_type_k k)"
  then show "PickAndCheckBackendType enable_llvm knobs k inputs = (None, k)"
    by (simp add: PickAndCheckBackendType_def)
next
  assume "backend_type_k k \<noteq> kUninitializedBackend"
  then show "snd (PickAndCheckBackendType enable_llvm knobs k inputs) = k"
    by (auto simp: PickAndCheckBackendType_def split: sum.splits)
qed

theorem backend_selection_state_machine_witness:
  "backend_type_k (snd (PickAndCheckBackendType False default_knobs empty_kernel
       [IInt 3, ITensor (cpu_tensor [4] [1])])) = kSimpleIREval
   \<and> backend_type_k (snd (PickAndCheckBackendType True default_knobs empty_kernel
       [ITensor (cuda_tensor [4] [1])])) = kCudaCodeGen
   \<and> PickAndCheckBackendType False default_knobs empty_kernel [IInt 3, IDouble (Fin 2)]
       = (Some NoTensorInputs, empty_kernel)
   \<and> PickAndCheckBackendType False default_knobs cpu_locked_kernel [ITensor (cuda_tensor [4] [1])]
       = (Some InconsistentBackendType, cpu_locked_kernel)
   \<and> run False default_knobs id id cpu_locked_kernel [ITensor (cuda_tensor [4] [1])]
       = (Inl InconsistentBackendType, cpu_locked_kernel)
   \<and> PickAndCheckBackendType False default_knobs cpu_locked_kernel [ITensor (cpu_tensor [9] [1])]
       = (None, cpu_locked_kernel)"
proof -
  have w1: "backend_type_k (snd (PickAndCheckBackendType False default_knobs empty_kernel
       [IInt 3, ITensor (cpu_tensor [4] [1])])) = kSimpleIREval"
    using backend_selection_state_machine
      [where k = empty_kernel and inputs = "[IInt 3, ITensor (cpu_tensor [4] [1])]"
         and dev = "\<lparr>device_type = kCPU, device_index = 0\<rparr>" and enable_llvm = False
         and knobs = default_knobs]
    by (simp add: empty_kernel_def cpu_tensor_def)
  have w2: "backend_type_k (snd (PickAndCheckBackendType True default_knobs empty_kernel
       [ITensor (cuda_tensor [4] [1])])) = kCudaCodeGen"
    using backend_selection_state_machine
      [where k = empty_kernel and inputs = "[ITensor (cuda_tensor [4] [1])]"
         and dev = "\<lparr>device_type = kCUDA, device_index = 0\<rparr>" and enable_llvm = True
         and knobs = default_knobs]
    by (simp add: empty_kernel_def cuda_tensor_def)
  have w3: "PickAndCheckBackendType False default_knobs empty_kernel [IInt 3, IDouble (Fin 2)]
       = (Some NoTensorInputs, empty_kernel)"
    using backend_selection_state_machine
      [where k = empty_kernel and inputs = "[IInt 3, IDouble (Fin 2)]" and enable_llvm = False
         and knobs = default_knobs]
    by simp
  note T = backend_selection_state_machine
      [where k = cpu_locked_kernel and inputs = "[ITensor (cuda_tensor [4] [1])]"
         and dev = "\<lparr>device_type = kCUDA, device_index = 0\<rparr>" and enable_llvm = False
         and knobs = default_knobs and b = kCudaCodeGen
         and stack = "[ITensor (cuda_tensor [4] [1])]" and to_float = id and alloc = id]
  have w4: "PickAndCheckBackendType False default_knobs cpu_locked_kernel
       [ITensor (cuda_tensor [4] [1])] = (Some InconsistentBackendType, cpu_locked_kernel)"
    using T by (simp add: cpu_locked_kernel_def empty_kernel_def cuda_tensor_def
        backend_of_device_def)
  have w5: "run False default_knobs id id cpu_locked_kernel [ITensor (cuda_tensor [4] [1])]
       = (Inl InconsistentBackendType, cpu_locked_kernel)"
    using T by (simp add: cpu_locked_kernel_def empty_kernel_def cuda_tensor_def
        backend_of_device_def)
  have w6: "PickAndCheckBackendType False default_knobs cpu_locked_kernel
       [ITensor (cpu_tensor [9] [1])] = (None, cpu_locked_kernel)"
    using backend_selection_state_machine
      [where k = cpu_locked_kernel and inputs = "[ITensor (cpu_tensor [9] [1])]"
         and dev = "\<lparr>device_type = kCPU, device_index = 0\<rparr>" and enable_llvm = False
         and knobs = default_knobs]
    by (simp add: cpu_locked_kernel_def empty_kernel_def cpu_tensor_def backend_of_device_def)
  from w1 w2 w3 w4 w5 w6 show ?thesis by blast
qed

subsection \<open>Output shapes at run time\<close>

lemma output_size_error: "output_size varToSize ds = Inl e \<Longrightarrow> e = CheckFailed"
  by (induction ds arbitrary: e) (auto split: option.splits sum.splits expr.splits)

lemma output_size_resolves:
  "output_size varToSize ds = Inr ss \<Longrightarrow>
     length ss = length ds
     \<and> (\<forall>i < length ds. varToSize (ds ! i) = Some (ss ! i)
            \<or> (varToSize (ds ! i) = None \<and> ds ! i = IntImm (ss ! i)))"
proof (induction ds arbitrary: ss)
  case Nil
  then show ?case by simp
next
  case (Cons d ds)
  from Cons.prems obtain s ss' where ss: "ss = s # ss'"
    and tl: "output_size varToSize ds = Inr ss'"
    and hd: "varToSize d = Some s \<or> (varToSize d = None \<and> d = IntImm s)"
    by (auto split: option.splits sum.splits expr.splits)
  from Cons.IH [OF tl] have len: "length ss' = length ds"
    and ih: "\<forall>i < length ds. varToSize (ds ! i) = Some (ss' ! i)
            \<or> (varToSize (ds ! i) = None \<and> ds ! i = IntImm (ss' ! i))"
    by blast+
  show ?case
  proof (intro conjI allI impI)
    show "length ss = length (d # ds)" using ss len by simp
  next
    fix i assume "i < length (d # ds)"
    then show "varToSize ((d # ds) ! i) = Some (ss ! i)
        \<or> (varToSize ((d # ds) ! i) = None \<and> (d # ds) ! i = IntImm (ss ! i))"
      using ss hd ih by (cases i) auto
  qed
qed

lemma output_size_unbound:
  "list_ex (\<lambda>d. varToSize d = None \<and> \<not> is_IntImm d) ds \<Longrightarrow>
     output_size varToSize ds = Inl CheckFailed"
proof (induction ds)
  case Nil
  then show ?case by simp
next
  case (Cons d ds)
  show ?case
  proof (cases "varToSize d = None \<and> \<not> is_IntImm d")
    case True
    then show ?thesis by (cases d) auto
  next
    case False
    with Cons.prems have "list_ex (\<lambda>d. varToSize d = None \<and> \<not> is_IntImm d) ds" by auto
    from Cons.IH [OF this] show ?thesis
      by (auto split: option.splits sum.splits expr.splits)
  qed
qed

lemma output_size_bound:
  "list_all (\<lambda>d. varToSize d \<noteq> None \<or> is_IntImm d) ds \<Longrightarrow>
     \<exists>ss. output_size varToSize ds = Inr ss"
proof (induction ds)
  case Nil
  then show ?case by simp
next
  case (Cons d ds)
  then obtain ss where "output_size varToSize ds = Inr ss" by auto
  moreover from Cons.prems have "varToSize d \<noteq> None \<or> is_IntImm d" by simp
  ultimately show ?case by (cases d) (auto split: option.splits)
qed

lemma alloc_outputs_sizes:
  "alloc_outputs alloc dev varToSize ts outs run_args = Inr (outs', run_args') \<Longrightarrow>
     \<exists>new. outs' = outs @ new
       \<and> list_all2 (\<lambda>out t. output_size varToSize (dims t) = Inr (tensor_sizes (snd out))
                        \<and> tensor_device (snd out) = dev) new ts"
proof (induction ts arbitrary: outs run_args)
  case Nil
  then show ?case by simp
next
  case (Cons t ts)
  from Cons.prems obtain tensorSize st where sz: "output_size varToSize (dims t) = Inr tensorSize"
    and rest: "alloc_outputs alloc dev varToSize ts
        (outs @ [(st, \<lparr>tensor_device = dev, tensor_sizes = tensorSize, tensor_strides = [],
                        tensor_data_ptr = alloc (length outs)\<rparr>)])
        (run_args @ [CallArg_ptr (alloc (length outs))]) = Inr (outs', run_args')"
    by (auto split: sum.splits)
  from Cons.IH [OF rest] obtain new where
    "outs' = (outs @ [(st, \<lparr>tensor_device = dev, tensor_sizes = tensorSize, tensor_strides = [],
                        tensor_data_ptr = alloc (length outs)\<rparr>)]) @ new"
    and "list_all2 (\<lambda>out t. output_size varToSize (dims t) = Inr (tensor_sizes (snd out))
                        \<and> tensor_device (snd out) = dev) new ts"
    by blast
  with sz show ?case
    by (intro exI [of _ "(st, \<lparr>tensor_device = dev, tensor_sizes = tensorSize,
          tensor_strides = [], tensor_data_ptr = alloc (length outs)\<rparr>) # new"]) simp
qed

lemma alloc_outputs_unbound:
  "list_ex (\<lambda>d. varToSize d = None \<and> \<not> is_IntImm d) (dims t) \<Longrightarrow>
     alloc_outputs alloc dev varToSize (t # ts) outs run_args = Inl CheckFailed"
  by (simp add: output_size_unbound)

lemma dyn_kernel_fields:
  "n_inputs_k dyn_kernel = 1"
  "backend_type_k dyn_kernel = kUninitializedBackend"
  "kernelArgs_k dyn_kernel =
     [\<lparr>arg_name = ''tx'', arg_dtype = kFloat32, arg_isVar = False,
       arg_sizes = [(0, Var ''size_0_0'' kInt32 0)], arg_strides = []\<rparr>]"
  "tensor_outputs_k dyn_kernel = [dyn_out]"
  "dims dyn_out = [Var ''size_0_0'' kInt32 0, IntImm 3]"
  "tensor_dtype dyn_out = kFloat32"
  "func_name dyn_out = ''aten_relu''"
  by code_simp+

lemma to_int32_id: "- (2 ^ 31) \<le> n \<Longrightarrow> n < 2 ^ 31 \<Longrightarrow> to_int32 n = n"
  unfolding to_int32_def by (simp add: signed_take_bit_int_eq_self sint_sbintrunc')

lemma dyn_kernel_pick:
  "PickAndCheckBackendType False default_knobs dyn_kernel [ITensor (cpu_tensor sizes strides)]
     = (None, dyn_compiled)"
  by (simp add: PickAndCheckBackendType_def backend_of_device_def cpu_tensor_def
      LowerToBackend_def bind_err_def dyn_kernel_fields kernel_params_def dyn_compiled_def)

lemma dyn_compiled_pick:
  "PickAndCheckBackendType False default_knobs dyn_compiled [ITensor (cpu_tensor sizes strides)]
     = (None, dyn_compiled)"
  by (simp add: PickAndCheckBackendType_def backend_of_device_def cpu_tensor_def
      dyn_compiled_def)

lemma dyn_run_args:
  "input_args to_float (kernelArgs_k dyn_kernel) 0 [ITensor (cpu_tensor [n, 3] [3, 1])]
       ([], Map.empty)
     = Inr ([CallArg_ptr 4096, CallArg_int (to_int32 n)],
            [Var ''size_0_0'' kInt32 0 \<mapsto> to_int32 n])"
  by (simp add: dyn_kernel_fields cpu_tensor_def Let_def)

lemma dyn_run:
  assumes k: "k = dyn_kernel \<or> k = dyn_compiled"
  shows "run False default_knobs to_float alloc k [ITensor (cpu_tensor [n, 3] [3, 1])]
     = (Inr \<lparr>run_codegen = \<lparr>codegen_name = ''simple_ir_eval'',
                codegen_params = [''tx'', ''size_0_0'', ''aten_relu''],
                codegen_outputs = [dyn_out], codegen_tiling = [NoTiling]\<rparr>,
              run_call_args =
                [CallArg_ptr 4096, CallArg_int (to_int32 n), CallArg_ptr (alloc 0)],
              run_outputs =
                [(ScalarType_Float,
                  \<lparr>tensor_device = \<lparr>device_type = kCPU, device_index = 0\<rparr>,
                   tensor_sizes = [to_int32 n, 3], tensor_strides = [],
                   tensor_data_ptr = alloc 0\<rparr>)],
              run_stack =
                [ITensor \<lparr>tensor_device = \<lparr>device_type = kCPU, device_index = 0\<rparr>,
                   tensor_sizes = [to_int32 n, 3], tensor_strides = [],
                   tensor_data_ptr = alloc 0\<rparr>]\<rparr>,
        dyn_compiled)"
proof -
  have n1: "n_inputs_k k = 1"
    using k by (auto simp: dyn_compiled_def dyn_kernel_fields)
  have pick: "PickAndCheckBackendType False default_knobs k [ITensor (cpu_tensor [n, 3] [3, 1])]
      = (None, dyn_compiled)"
    using k dyn_kernel_pick dyn_compiled_pick by auto
  have ka: "kernelArgs_k dyn_compiled = kernelArgs_k dyn_kernel"
    and outs: "tensor_outputs_k dyn_compiled = [dyn_out]"
    and dev: "device_k dyn_compiled = \<lparr>device_type = kCPU, device_index = 0\<rparr>"
    and bk: "backend_type_k dyn_compiled = kSimpleIREval"
    and cg: "codegen_k dyn_compiled = Some \<lparr>codegen_name = ''simple_ir_eval'',
                codegen_params = [''tx'', ''size_0_0'', ''aten_relu''],
                codegen_outputs = [dyn_out], codegen_tiling = [NoTiling]\<rparr>"
    by (simp_all add: dyn_compiled_def dyn_kernel_fields)
  have ia: "input_args to_float (kernelArgs_k dyn_compiled) 0
      [ITensor (cpu_tensor [n, 3] [3, 1])] ([], Map.empty)
     = Inr ([CallArg_ptr 4096, CallArg_int (to_int32 n)],
            [Var ''size_0_0'' kInt32 0 \<mapsto> to_int32 n])"
    using dyn_run_args by (simp only: ka)
  show ?thesis
    by (simp add: run_def n1 pick ia outs dev bk cg bind_err_def dyn_kernel_fields(5)
        dyn_kernel_fields(6) tensorType_def CodeGenRun_def del: input_args.simps)
qed

text \<open>
  Claim C8. The shape of an output is computed dimension by dimension: a dimension
  that the map from size variables to observed sizes knows is that size, any other
  dimension is the constant of an integer immediate, and the computation succeeds
  exactly when every dimension is one or the other. A run whose arguments are set up but
  whose first output has a dimension that is neither fails with the failed check. The
  sizes of the outputs of a run that succeeds are these resolved sizes. For the kernel
  of \<open>y = relu(x)\<close> with \<open>x\<close> of unknown size at axis 0, a run on a tensor of \<open>n\<close> rows
  returns an output of \<open>n\<close> rows, on the fresh kernel as on the kernel that an earlier
  run compiled, and both leave the same compiled kernel.
\<close>

theorem output_shape_resolution:
  "(output_size varToSize ds = Inr ss \<longrightarrow>
      length ss = length ds
      \<and> (\<forall>i < length ds. varToSize (ds ! i) = Some (ss ! i)
            \<or> (varToSize (ds ! i) = None \<and> ds ! i = IntImm (ss ! i))))
   \<and> (list_all (\<lambda>d. varToSize d \<noteq> None \<or> is_IntImm d) ds \<longrightarrow>
        (\<exists>ss. output_size varToSize ds = Inr ss))
   \<and> (list_ex (\<lambda>d. varToSize d = None \<and> \<not> is_IntImm d) ds \<longrightarrow>
        output_size varToSize ds = Inl CheckFailed)
   \<and> (n_inputs_k k \<le> length stack
        \<and> PickAndCheckBackendType enable_llvm knobs k (drop (length stack - n_inputs_k k) stack)
            = (None, k')
        \<and> input_args to_float (kernelArgs_k k') 0 (drop (length stack - n_inputs_k k) stack)
            ([], Map.empty) = Inr (run_args, varToSize)
        \<and> tensor_outputs_k k' = t # ts
        \<and> list_ex (\<lambda>d. varToSize d = None \<and> \<not> is_IntImm d) (dims t) \<longrightarrow>
        run enable_llvm knobs to_float alloc k stack = (Inl CheckFailed, k'))
   \<and> (run enable_llvm knobs to_float alloc k stack = (Inr r, k') \<longrightarrow>
        (\<exists>run_args vts.
           input_args to_float (kernelArgs_k k') 0 (drop (length stack - n_inputs_k k) stack)
             ([], Map.empty) = Inr (run_args, vts)
           \<and> list_all2 (\<lambda>out t. output_size vts (dims t) = Inr (tensor_sizes (snd out)))
                (run_outputs r) (tensor_outputs_k k')))
   \<and> (0 \<le> n \<and> n < 2 ^ 31 \<longrightarrow>
        (\<exists>r. run False default_knobs to_float alloc dyn_kernel
                [ITensor (cpu_tensor [n, 3] [3, 1])] = (Inr r, dyn_compiled)
             \<and> map (\<lambda>out. tensor_sizes (snd out)) (run_outputs r) = [[n, 3]]
             \<and> codegen_k dyn_compiled = Some (run_codegen r))
        \<and> (\<exists>r. run False default_knobs to_float alloc dyn_compiled
                [ITensor (cpu_tensor [n, 3] [3, 1])] = (Inr r, dyn_compiled)
             \<and> map (\<lambda>out. tensor_sizes (snd out)) (run_outputs r) = [[n, 3]]
             \<and> codegen_k dyn_compiled = Some (run_codegen r)))"
proof (intro conjI impI)
  assume "output_size varToSize ds = Inr ss"
  from output_size_resolves [OF this]
  show "length ss = length ds"
    and "\<forall>i < length ds. varToSize (ds ! i) = Some (ss ! i)
            \<or> (varToSize (ds ! i) = None \<and> ds ! i = IntImm (ss ! i))"
    by blast+
next
  assume "list_all (\<lambda>d. varToSize d \<noteq> None \<or> is_IntImm d) ds"
  then show "\<exists>ss. output_size varToSize ds = Inr ss" by (rule output_size_bound)
next
  assume "list_ex (\<lambda>d. varToSize d = None \<and> \<not> is_IntImm d) ds"
  then show "output_size varToSize ds = Inl CheckFailed" by (rule output_size_unbound)
next
  assume a: "n_inputs_k k \<le> length stack
        \<and> PickAndCheckBackendType enable_llvm knobs k (drop (length stack - n_inputs_k k) stack)
            = (None, k')
        \<and> input_args to_float (kernelArgs_k k') 0 (drop (length stack - n_inputs_k k) stack)
            ([], Map.empty) = Inr (run_args, varToSize)
        \<and> tensor_outputs_k k' = t # ts
        \<and> list_ex (\<lambda>d. varToSize d = None \<and> \<not> is_IntImm d) (dims t)"
  then have "alloc_outputs alloc (device_k k') varToSize (tensor_outputs_k k') [] run_args
      = Inl CheckFailed"
    using alloc_outputs_unbound by simp
  with a show "run enable_llvm knobs to_float alloc k stack = (Inl CheckFailed, k')"
    by (simp add: run_def bind_err_def)
next
  assume r: "run enable_llvm knobs to_float alloc k stack = (Inr r, k')"
  then obtain run_args vts outputs run_args' where
    ia: "input_args to_float (kernelArgs_k k') 0 (drop (length stack - n_inputs_k k) stack)
             ([], Map.empty) = Inr (run_args, vts)"
    and ao: "alloc_outputs alloc (device_k k') vts (tensor_outputs_k k') [] run_args
        = Inr (outputs, run_args')"
    and ro: "run_outputs r = outputs"
    by (auto simp: run_def bind_err_def Let_def split: if_splits prod.splits option.splits
        sum.splits)
  from alloc_outputs_sizes [OF ao]
  have "list_all2 (\<lambda>out t. output_size vts (dims t) = Inr (tensor_sizes (snd out))
                        \<and> tensor_device (snd out) = device_k k') outputs (tensor_outputs_k k')"
    by simp
  then have "list_all2 (\<lambda>out t. output_size vts (dims t) = Inr (tensor_sizes (snd out)))
      outputs (tensor_outputs_k k')"
    by (rule list_all2_mono) simp
  with ia ro
  show "\<exists>run_args vts.
           input_args to_float (kernelArgs_k k') 0 (drop (length stack - n_inputs_k k) stack)
             ([], Map.empty) = Inr (run_args, vts)
           \<and> list_all2 (\<lambda>out t. output_size vts (dims t) = Inr (tensor_sizes (snd out)))
                (run_outputs r) (tensor_outputs_k k')"
    by blast
next
  assume n: "0 \<le> n \<and> n < 2 ^ 31"
  then have n0: "0 \<le> n" and n1: "n < 2 ^ 31" by simp_all
  have cg: "codegen_k dyn_compiled = Some \<lparr>codegen_name = ''simple_ir_eval'',
                codegen_params = [''tx'', ''size_0_0'', ''aten_relu''],
                codegen_outputs = [dyn_out], codegen_tiling = [NoTiling]\<rparr>"
    by (simp add: dyn_compiled_def)
  show "\<exists>r. run False default_knobs to_float alloc dyn_kernel
                [ITensor (cpu_tensor [n, 3] [3, 1])] = (Inr r, dyn_compiled)
             \<and> map (\<lambda>out. tensor_sizes (snd out)) (run_outputs r) = [[n, 3]]
             \<and> codegen_k dyn_compiled = Some (run_codegen r)"
    using dyn_run [of dyn_kernel to_float alloc n] cg to_int32_id [of n] n0 n1 by simp
  show "\<exists>r. run False default_knobs to_float alloc dyn_compiled
                [ITensor (cpu_tensor [n, 3] [3, 1])] = (Inr r, dyn_compiled)
             \<and> map (\<lambda>out. tensor_sizes (snd out)) (run_outputs r) = [[n, 3]]
             \<and> codegen_k dyn_compiled = Some (run_codegen r)"
    using dyn_run [of dyn_compiled to_float alloc n] cg to_int32_id [of n] n0 n1 by simp
qed

theorem output_shape_resolution_witness:
  "(\<exists>r. run False default_knobs id id dyn_kernel [ITensor (cpu_tensor [4, 3] [3, 1])]
          = (Inr r, dyn_compiled)
        \<and> map (\<lambda>out. tensor_sizes (snd out)) (run_outputs r) = [[4, 3]]
        \<and> codegen_k dyn_compiled = Some (run_codegen r))
   \<and> (\<exists>r. run False default_knobs id id dyn_compiled [ITensor (cpu_tensor [9, 3] [3, 1])]
          = (Inr r, dyn_compiled)
        \<and> map (\<lambda>out. tensor_sizes (snd out)) (run_outputs r) = [[9, 3]]
        \<and> codegen_k dyn_compiled = Some (run_codegen r))
   \<and> output_size [Var ''size_0_0'' kInt32 0 \<mapsto> 9] [Var ''size_0_0'' kInt32 0, IntImm 3]
       = Inr [9, 3]
   \<and> output_size Map.empty [Var ''size_0_0'' kInt32 0, IntImm 3] = Inl CheckFailed
   \<and> run False default_knobs id id unbound_kernel [ITensor (cpu_tensor [4, 3] [3, 1])]
       = (Inl CheckFailed, unbound_kernel)"
proof -
  have w4: "\<exists>r. run False default_knobs id id dyn_kernel [ITensor (cpu_tensor [4, 3] [3, 1])]
          = (Inr r, dyn_compiled)
        \<and> map (\<lambda>out. tensor_sizes (snd out)) (run_outputs r) = [[4, 3]]
        \<and> codegen_k dyn_compiled = Some (run_codegen r)"
    using output_shape_resolution [where n = 4 and to_float = id and alloc = id] by simp
  have w9: "\<exists>r. run False default_knobs id id dyn_compiled [ITensor (cpu_tensor [9, 3] [3, 1])]
          = (Inr r, dyn_compiled)
        \<and> map (\<lambda>out. tensor_sizes (snd out)) (run_outputs r) = [[9, 3]]
        \<and> codegen_k dyn_compiled = Some (run_codegen r)"
    using output_shape_resolution [where n = 9 and to_float = id and alloc = id] by simp
  have ok: "output_size [Var ''size_0_0'' kInt32 0 \<mapsto> 9] [Var ''size_0_0'' kInt32 0, IntImm 3]
       = Inr [9, 3]"
    by simp
  have "length [9, 3 :: int] = length [Var ''size_0_0'' kInt32 0, IntImm 3]"
    using ok output_shape_resolution
      [where varToSize = "[Var ''size_0_0'' kInt32 0 \<mapsto> 9]"
         and ds = "[Var ''size_0_0'' kInt32 0, IntImm 3]" and ss = "[9, 3]"]
    by blast
  have bad: "output_size Map.empty [Var ''size_0_0'' kInt32 0, IntImm 3] = Inl CheckFailed"
    using output_shape_resolution
      [where varToSize = Map.empty and ds = "[Var ''size_0_0'' kInt32 0, IntImm 3]"]
    by simp
  have pick: "PickAndCheckBackendType False default_knobs unbound_kernel
      (drop (length [ITensor (cpu_tensor [4, 3] [3, 1])] - n_inputs_k unbound_kernel)
         [ITensor (cpu_tensor [4, 3] [3, 1])]) = (None, unbound_kernel)"
    by (simp add: unbound_kernel_def dyn_compiled_def PickAndCheckBackendType_def
        backend_of_device_def cpu_tensor_def dyn_kernel_fields(1))
  have fail: "run False default_knobs id id unbound_kernel [ITensor (cpu_tensor [4, 3] [3, 1])]
       = (Inl CheckFailed, unbound_kernel)"
    using pick output_shape_resolution
      [where k = unbound_kernel and k' = unbound_kernel
         and stack = "[ITensor (cpu_tensor [4, 3] [3, 1])]" and enable_llvm = False
         and knobs = default_knobs and to_float = id and alloc = id
         and run_args = "[CallArg_ptr 4096]" and varToSize = Map.empty and t = dyn_out
         and ts = "[]"]
    by (simp add: unbound_kernel_def dyn_compiled_def dyn_kernel_fields cpu_tensor_def)
  from w4 w9 ok bad fail show ?thesis by blast
qed

subsection \<open>Narrowing of the run arguments\<close>













subsection \<open>Specialization of clamp\<close>

lemma is_none_constant_True:
  "is_none_constant vi = Inr True \<longleftrightarrow> node_kind vi = prim_Constant \<and> node_ivalue vi = Some INone"
  by (auto simp: is_none_constant_def split: option.splits IValue.splits)

lemma clamp_lowering:
  assumes "node_kind v = aten_clamp" and "node_inputs v = [xv, min_v, max_v]"
    and "is_none_constant min_v = Inr no_min" and "is_none_constant max_v = Inr no_max"
  shows "ComputeValue to_float k v
    = Compute ''aten_clamp''
        (fmap_DimArg (broadcastShapes (broadcastShapes (valueShape k xv) (valueShape k min_v))
           (valueShape k max_v)))
        (compute_body to_float k v 3
           (\<lambda>inputs. clamp_expr no_min no_max (inputs ! 0) (inputs ! 1) (inputs ! 2)))"
  using assms
  by (simp add: ComputeValue_def lower_clamp_def ComputeThreeOperand_def input_shape_def
      input_at_def bind_err_def)

lemma operands_three:
  assumes "node_inputs v = [v0, v1, v2]"
    and "tensorOrConstant to_float k v0 axes = Inr e0"
    and "tensorOrConstant to_float k v1 axes = Inr e1"
    and "tensorOrConstant to_float k v2 axes = Inr e2"
  shows "operands to_float k v axes [0..<3] = Inr [e0, e1, e2]"
  using assms by (simp add: upt_rec input_at_def)

text \<open>
  Claim C4. The expression of \<open>clamp\<close> is chosen by two flags: the input itself when
  both bounds are absent, the minimum with the upper bound when only the lower bound is
  absent, the maximum with the lower bound when only the upper bound is absent, and the
  maximum of the lower bound and the minimum with the upper bound otherwise. A flag is
  set exactly when the operand of the node is a constant of value \<open>None\<close>, so the choice
  is made on the node when it is lowered and the tensor that is built holds the chosen
  expression alone. With both bounds absent the tensor built reads the input and nothing
  else, whenever the result is not demoted (the input is not float under an output
  declared integer).
\<close>

theorem clamp_specialization:
  "clamp_expr True True x min_e max_e = x
   \<and> clamp_expr True False x min_e max_e = Min x max_e False
   \<and> clamp_expr False True x min_e max_e = Max x min_e False
   \<and> clamp_expr False False x min_e max_e = Max (Min x max_e False) min_e False
   \<and> (is_none_constant vi = Inr True
        \<longleftrightarrow> node_kind vi = prim_Constant \<and> node_ivalue vi = Some INone)
   \<and> (node_kind v = aten_clamp \<and> node_inputs v = [xv, min_v, max_v]
        \<and> is_none_constant min_v = Inr no_min \<and> is_none_constant max_v = Inr no_max \<longrightarrow>
        ComputeValue to_float k v
          = Compute ''aten_clamp''
              (fmap_DimArg (broadcastShapes
                 (broadcastShapes (valueShape k xv) (valueShape k min_v)) (valueShape k max_v)))
              (compute_body to_float k v 3
                 (\<lambda>inputs. clamp_expr no_min no_max (inputs ! 0) (inputs ! 1) (inputs ! 2))))
   \<and> (node_kind v = aten_clamp \<and> node_inputs v = [xv, min_v, max_v]
        \<and> tensors_k k (v_unique xv) = Some tx
        \<and> is_none_constant min_v = Inr True \<and> tensors_k k (v_unique min_v) = None
        \<and> is_none_constant max_v = Inr True \<and> tensors_k k (v_unique max_v) = None
        \<and> v_type v = TensorType st sizes strides contiguity
        \<and> \<not> (tensor_dtype tx = kFloat32 \<and> st = ScalarType_Int) \<longrightarrow>
        ComputeValue to_float k v
          = Inr (Tensor ''aten_clamp''
                   (broadcastShapes (broadcastShapes (dims tx) [IntImm 1]) [IntImm 1])
                   (axis_vars (fmap_DimArg
                      (broadcastShapes (broadcastShapes (dims tx) [IntImm 1]) [IntImm 1])))
                   (broadcast tx (axis_vars (fmap_DimArg
                      (broadcastShapes (broadcastShapes (dims tx) [IntImm 1]) [IntImm 1]))))))"
proof (intro conjI impI)
  show "clamp_expr True True x min_e max_e = x"
    and "clamp_expr True False x min_e max_e = Min x max_e False"
    and "clamp_expr False True x min_e max_e = Max x min_e False"
    and "clamp_expr False False x min_e max_e = Max (Min x max_e False) min_e False"
    by (simp_all add: clamp_expr_def)
next
  show "is_none_constant vi = Inr True
        \<longleftrightarrow> node_kind vi = prim_Constant \<and> node_ivalue vi = Some INone"
    by (rule is_none_constant_True)
next
  assume "node_kind v = aten_clamp \<and> node_inputs v = [xv, min_v, max_v]
        \<and> is_none_constant min_v = Inr no_min \<and> is_none_constant max_v = Inr no_max"
  then show "ComputeValue to_float k v
          = Compute ''aten_clamp''
              (fmap_DimArg (broadcastShapes
                 (broadcastShapes (valueShape k xv) (valueShape k min_v)) (valueShape k max_v)))
              (compute_body to_float k v 3
                 (\<lambda>inputs. clamp_expr no_min no_max (inputs ! 0) (inputs ! 1) (inputs ! 2)))"
    using clamp_lowering by blast
next
  let ?shape = "broadcastShapes (broadcastShapes (dims tx) [IntImm 1]) [IntImm 1]"
  let ?axes = "axis_vars (fmap_DimArg ?shape)"
  assume a: "node_kind v = aten_clamp \<and> node_inputs v = [xv, min_v, max_v]
        \<and> tensors_k k (v_unique xv) = Some tx
        \<and> is_none_constant min_v = Inr True \<and> tensors_k k (v_unique min_v) = None
        \<and> is_none_constant max_v = Inr True \<and> tensors_k k (v_unique max_v) = None
        \<and> v_type v = TensorType st sizes strides contiguity
        \<and> \<not> (tensor_dtype tx = kFloat32 \<and> st = ScalarType_Int)"
  then have lower: "ComputeValue to_float k v
      = Compute ''aten_clamp'' (fmap_DimArg ?shape)
          (compute_body to_float k v 3
             (\<lambda>inputs. clamp_expr True True (inputs ! 0) (inputs ! 1) (inputs ! 2)))"
    using clamp_lowering [of v xv min_v max_v True True to_float k]
    by (simp add: valueShape_def)
  from a have none: "node_kind min_v = prim_Constant" "node_ivalue min_v = Some INone"
    "node_kind max_v = prim_Constant" "node_ivalue max_v = Some INone"
    by (simp_all add: is_none_constant_True)
  from a have inputs: "node_inputs v = [xv, min_v, max_v]"
    and tx: "tensors_k k (v_unique xv) = Some tx"
    and tmin: "tensors_k k (v_unique min_v) = None"
    and tmax: "tensors_k k (v_unique max_v) = None"
    by simp_all
  have ops: "operands to_float k v ?axes [0..<3]
      = Inr [broadcast tx ?axes, IntImm 0, IntImm 0]"
    using inputs
    by (rule operands_three) (simp_all add: tensorOrConstant_def constant_expr_def tx tmin tmax none)
  have dt: "dtype (broadcast tx ?axes) = tensor_dtype tx"
    by (simp add: broadcast_def)
  have prom: "promoteInputs [broadcast tx ?axes, IntImm 0, IntImm 0] ! 0 = broadcast tx ?axes"
    by (simp add: promoteInputs_def dt)
  from a have dem: "demoteOutput (broadcast tx ?axes) v = Inr (broadcast tx ?axes)"
    by (auto simp: demoteOutput_def dt)
  have "compute_body to_float k v 3
      (\<lambda>inputs. clamp_expr True True (inputs ! 0) (inputs ! 1) (inputs ! 2)) ?axes
      = Inr (broadcast tx ?axes)"
    by (simp add: compute_body_def ops bind_err_def clamp_expr_def prom dem)
  then show "ComputeValue to_float k v
      = Inr (Tensor ''aten_clamp'' ?shape ?axes (broadcast tx ?axes))"
    by (simp add: lower Compute_def bind_err_def fmap_DimArg_def comp_def)
qed

lemma xn_kernel_tensors:
  "tensors_k xn_kernel 0 = Some flt_x_tensor"
  "tensors_k xn_kernel 1 = Some int_n_tensor"
  "tensors_k xn_kernel 5 = None"
  "tensors_k xn_kernel 6 = None"
  by code_simp+

theorem clamp_specialization_witness:
  "ComputeValue id xn_kernel
       (node_value 9 ScalarType_Float aten_clamp [flt_x, none_const 5, none_const 6])
     = Inr (Tensor ''aten_clamp'' [IntImm 4] [Var [] kInt32 0]
              (FunctionCall flt_x_tensor [Var [] kInt32 0]))
   \<and> ComputeValue id xn_kernel
       (node_value 9 ScalarType_Float aten_clamp
          [flt_x, none_const 5, const_value 6 FloatType (IDouble (Fin 5))])
     = Inr (Tensor ''aten_clamp'' [IntImm 4] [Var [] kInt32 0]
              (Min (FunctionCall flt_x_tensor [Var [] kInt32 0]) (FloatImm (Fin 5)) False))
   \<and> is_none_constant (none_const 5) = Inr True
   \<and> is_none_constant (const_value 6 FloatType (IDouble (Fin 5))) = Inr False"
proof -
  have n5: "is_none_constant (none_const 5) = Inr True"
    using clamp_specialization [where vi = "none_const 5"]
    by (simp add: none_const_def const_value_def)
  have n6: "is_none_constant (none_const 6) = Inr True"
    using clamp_specialization [where vi = "none_const 6"]
    by (simp add: none_const_def const_value_def)
  have c6: "is_none_constant (const_value 6 FloatType (IDouble (Fin 5))) = Inr False"
    by (simp add: is_none_constant_def const_value_def)
  have shape: "broadcastShapes (broadcastShapes (dims flt_x_tensor) [IntImm 1]) [IntImm 1]
      = [IntImm 4]"
    by (simp add: flt_x_tensor_def broadcastShapes_def)
  have axes: "axis_vars (fmap_DimArg [IntImm 4]) = [Var [] kInt32 0]"
    by (simp add: axis_vars_def fmap_DimArg_def)
  have w1: "ComputeValue id xn_kernel
       (node_value 9 ScalarType_Float aten_clamp [flt_x, none_const 5, none_const 6])
     = Inr (Tensor ''aten_clamp'' [IntImm 4] [Var [] kInt32 0]
              (FunctionCall flt_x_tensor [Var [] kInt32 0]))"
    using clamp_specialization
      [where v = "node_value 9 ScalarType_Float aten_clamp [flt_x, none_const 5, none_const 6]"
         and xv = flt_x and min_v = "none_const 5" and max_v = "none_const 6"
         and k = xn_kernel and tx = flt_x_tensor and st = ScalarType_Float and sizes = "[4]"
         and strides = "[1]" and contiguity = "[True]" and to_float = id]
      n5 n6 xn_kernel_tensors
    by (simp add: node_value_def flt_x_def none_const_def const_value_def shape axes)
      (simp add: broadcast_def flt_x_tensor_def)
  have w2: "ComputeValue id xn_kernel
       (node_value 9 ScalarType_Float aten_clamp
          [flt_x, none_const 5, const_value 6 FloatType (IDouble (Fin 5))])
     = Inr (Tensor ''aten_clamp'' [IntImm 4] [Var [] kInt32 0]
              (Min (FunctionCall flt_x_tensor [Var [] kInt32 0]) (FloatImm (Fin 5)) False))"
    by code_simp
  from w1 w2 n5 c6 show ?thesis by blast
qed

subsection \<open>Promotion of the operands and demotion of the result\<close>

lemma promoteInputs_float:
  "list_ex (\<lambda>e. dtype e = kFloat32) es \<Longrightarrow>
     promoteInputs es = map (\<lambda>e. if dtype e = kInt32 then Cast kFloat32 e else e) es"
  by (simp add: promoteInputs_def)

lemma promoteInputs_int:
  "\<not> list_ex (\<lambda>e. dtype e = kFloat32) es \<Longrightarrow> promoteInputs es = es"
  by (simp add: promoteInputs_def)

lemma promoteInputs_all_float:
  assumes "list_ex (\<lambda>e. dtype e = kFloat32) es"
    and "list_all (\<lambda>e. dtype e = kInt32 \<or> dtype e = kFloat32) es"
  shows "list_all (\<lambda>e. dtype e = kFloat32) (promoteInputs es)"
  using assms(2) unfolding promoteInputs_float [OF assms(1)]
  by (induction es) auto

lemma arithmetic_result_type:
  assumes "f \<in> set arithmetic_templates" and "dtype a = t" and "dtype b = t"
  shows "dtype (f a b) = t"
  using assms by (auto simp: arithmetic_templates_def)

lemma promoteInputs_two:
  assumes "dtype a = kInt32 \<or> dtype a = kFloat32" and "dtype b = kInt32 \<or> dtype b = kFloat32"
  shows "dtype (promoteInputs [a, b] ! 0)
           = (if dtype a = kFloat32 \<or> dtype b = kFloat32 then kFloat32 else kInt32)
     \<and> dtype (promoteInputs [a, b] ! 1)
           = (if dtype a = kFloat32 \<or> dtype b = kFloat32 then kFloat32 else kInt32)"
  using assms by (auto simp: promoteInputs_def)

lemma promoteInputs_three:
  assumes "dtype a = kInt32 \<or> dtype a = kFloat32" and "dtype b = kInt32 \<or> dtype b = kFloat32"
    and "dtype c = kInt32 \<or> dtype c = kFloat32"
  shows "dtype (promoteInputs [a, b, c] ! 0)
           = (if dtype a = kFloat32 \<or> dtype b = kFloat32 \<or> dtype c = kFloat32
              then kFloat32 else kInt32)
     \<and> dtype (promoteInputs [a, b, c] ! 1)
           = (if dtype a = kFloat32 \<or> dtype b = kFloat32 \<or> dtype c = kFloat32
              then kFloat32 else kInt32)
     \<and> dtype (promoteInputs [a, b, c] ! 2)
           = (if dtype a = kFloat32 \<or> dtype b = kFloat32 \<or> dtype c = kFloat32
              then kFloat32 else kInt32)"
  using assms by (auto simp: promoteInputs_def)

lemma cast_neq: "Cast t e \<noteq> e"
proof
  assume "Cast t e = e"
  then have "size (Cast t e) = size e" by simp
  then show False by simp
qed

text \<open>
  Claim C5, as amended. When some operand is float-typed, \<open>promoteInputs\<close> casts
  every integer-typed operand to float and leaves the others, so that operands that are
  integer- or float-typed all reach the operator's expression float-typed; when no
  operand is float-typed it changes nothing. The type of the computed expression is then
  fixed by the operator's expression: for the arithmetic expressions (\<open>add\<close>, \<open>sub\<close>,
  \<open>mul\<close>, \<open>div\<close>, \<open>min\<close>, \<open>max\<close>, also with the scale of \<open>add\<close> and \<open>sub\<close>) it is float
  when some operand is float-typed and integer when all are integer-typed. The result is
  demoted by a cast to integer exactly when the type declared for the output is integer
  and the computed expression is float-typed.
\<close>

theorem promotion_and_demotion:
  "(list_ex (\<lambda>e. dtype e = kFloat32) es \<longrightarrow>
      promoteInputs es = map (\<lambda>e. if dtype e = kInt32 then Cast kFloat32 e else e) es)
   \<and> (list_ex (\<lambda>e. dtype e = kFloat32) es
        \<and> list_all (\<lambda>e. dtype e = kInt32 \<or> dtype e = kFloat32) es \<longrightarrow>
        list_all (\<lambda>e. dtype e = kFloat32) (promoteInputs es))
   \<and> (\<not> list_ex (\<lambda>e. dtype e = kFloat32) es \<longrightarrow> promoteInputs es = es)
   \<and> (f \<in> set arithmetic_templates
        \<and> list_all (\<lambda>e. dtype e = kInt32 \<or> dtype e = kFloat32) [a, b] \<longrightarrow>
        dtype (f (promoteInputs [a, b] ! 0) (promoteInputs [a, b] ! 1))
          = (if list_ex (\<lambda>e. dtype e = kFloat32) [a, b] then kFloat32 else kInt32))
   \<and> (f \<in> set arithmetic_templates
        \<and> list_all (\<lambda>e. dtype e = kInt32 \<or> dtype e = kFloat32) [a, b, c] \<longrightarrow>
        dtype (f (promoteInputs [a, b, c] ! 0)
                 (Mul (promoteInputs [a, b, c] ! 2) (promoteInputs [a, b, c] ! 1)))
          = (if list_ex (\<lambda>e. dtype e = kFloat32) [a, b, c] then kFloat32 else kInt32))
   \<and> (v_type v = TensorType st sizes strides contiguity \<longrightarrow>
        demoteOutput e v
          = Inr (if dtype e = kFloat32 \<and> st = ScalarType_Int then Cast kInt32 e else e)
        \<and> (demoteOutput e v = Inr (Cast kInt32 e)
             \<longleftrightarrow> dtype e = kFloat32 \<and> st = ScalarType_Int))"
proof (intro conjI impI)
  assume "list_ex (\<lambda>e. dtype e = kFloat32) es"
  then show "promoteInputs es = map (\<lambda>e. if dtype e = kInt32 then Cast kFloat32 e else e) es"
    by (rule promoteInputs_float)
next
  assume "list_ex (\<lambda>e. dtype e = kFloat32) es
        \<and> list_all (\<lambda>e. dtype e = kInt32 \<or> dtype e = kFloat32) es"
  then show "list_all (\<lambda>e. dtype e = kFloat32) (promoteInputs es)"
    using promoteInputs_all_float by blast
next
  assume "\<not> list_ex (\<lambda>e. dtype e = kFloat32) es"
  then show "promoteInputs es = es" by (rule promoteInputs_int)
next
  assume h: "f \<in> set arithmetic_templates
        \<and> list_all (\<lambda>e. dtype e = kInt32 \<or> dtype e = kFloat32) [a, b]"
  then have ab: "dtype a = kInt32 \<or> dtype a = kFloat32" "dtype b = kInt32 \<or> dtype b = kFloat32"
    by simp_all
  from promoteInputs_two [OF ab] arithmetic_result_type h
  show "dtype (f (promoteInputs [a, b] ! 0) (promoteInputs [a, b] ! 1))
          = (if list_ex (\<lambda>e. dtype e = kFloat32) [a, b] then kFloat32 else kInt32)"
    by simp
next
  assume h: "f \<in> set arithmetic_templates
        \<and> list_all (\<lambda>e. dtype e = kInt32 \<or> dtype e = kFloat32) [a, b, c]"
  then have abc: "dtype a = kInt32 \<or> dtype a = kFloat32"
    "dtype b = kInt32 \<or> dtype b = kFloat32" "dtype c = kInt32 \<or> dtype c = kFloat32"
    by simp_all
  let ?t = "if dtype a = kFloat32 \<or> dtype b = kFloat32 \<or> dtype c = kFloat32
            then kFloat32 else kInt32"
  from promoteInputs_three [OF abc]
  have p: "dtype (promoteInputs [a, b, c] ! 0) = ?t" "dtype (promoteInputs [a, b, c] ! 1) = ?t"
    "dtype (promoteInputs [a, b, c] ! 2) = ?t"
    by blast+
  have m: "dtype (Mul (promoteInputs [a, b, c] ! 2) (promoteInputs [a, b, c] ! 1)) = ?t"
    by (simp only: dtype.simps p BinaryOpDtype.simps if_True refl)
  from h have "f \<in> set arithmetic_templates" by simp
  from arithmetic_result_type [OF this p(1) m]
  show "dtype (f (promoteInputs [a, b, c] ! 0)
                 (Mul (promoteInputs [a, b, c] ! 2) (promoteInputs [a, b, c] ! 1)))
          = (if list_ex (\<lambda>e. dtype e = kFloat32) [a, b, c] then kFloat32 else kInt32)"
    by simp
next
  assume t: "v_type v = TensorType st sizes strides contiguity"
  then show d: "demoteOutput e v
          = Inr (if dtype e = kFloat32 \<and> st = ScalarType_Int then Cast kInt32 e else e)"
    by (simp add: demoteOutput_def)
  show "demoteOutput e v = Inr (Cast kInt32 e) \<longleftrightarrow> dtype e = kFloat32 \<and> st = ScalarType_Int"
    using cast_neq [of kInt32 e] by (auto simp: d)
qed

theorem promotion_and_demotion_witness:
  "promoteInputs [Var ''n'' kInt32 0, FloatImm (Fin 2)]
     = [Cast kFloat32 (Var ''n'' kInt32 0), FloatImm (Fin 2)]
   \<and> list_all (\<lambda>e. dtype e = kFloat32) (promoteInputs [Var ''n'' kInt32 0, FloatImm (Fin 2)])
   \<and> promoteInputs [Var ''n'' kInt32 0, IntImm 2] = [Var ''n'' kInt32 0, IntImm 2]
   \<and> dtype (Mul (promoteInputs [Var ''n'' kInt32 0, FloatImm (Fin 2)] ! 0)
                (promoteInputs [Var ''n'' kInt32 0, FloatImm (Fin 2)] ! 1)) = kFloat32
   \<and> dtype (Add (promoteInputs [Var ''n'' kInt32 0, IntImm 2, IntImm 1] ! 0)
                (Mul (promoteInputs [Var ''n'' kInt32 0, IntImm 2, IntImm 1] ! 2)
                   (promoteInputs [Var ''n'' kInt32 0, IntImm 2, IntImm 1] ! 1))) = kInt32
   \<and> demoteOutput (FloatImm (Fin 2)) (node_value 9 ScalarType_Int aten_mul [])
       = Inr (Cast kInt32 (FloatImm (Fin 2)))
   \<and> demoteOutput (FloatImm (Fin 2)) (node_value 9 ScalarType_Float aten_mul [])
       = Inr (FloatImm (Fin 2))"
proof -
  note T = promotion_and_demotion
    [where es = "[Var ''n'' kInt32 0, FloatImm (Fin 2)]" and f = Mul
       and a = "Var ''n'' kInt32 0" and b = "FloatImm (Fin 2)"
       and v = "node_value 9 ScalarType_Int aten_mul []" and st = ScalarType_Int
       and sizes = "[4]" and strides = "[1]" and contiguity = "[True]"
       and e = "FloatImm (Fin 2)"]
  note U = promotion_and_demotion
    [where es = "[Var ''n'' kInt32 0, IntImm 2]" and f = Add
       and a = "Var ''n'' kInt32 0" and b = "IntImm 2" and c = "IntImm 1"
       and v = "node_value 9 ScalarType_Float aten_mul []" and st = ScalarType_Float
       and sizes = "[4]" and strides = "[1]" and contiguity = "[True]"
       and e = "FloatImm (Fin 2)"]
  have w1: "promoteInputs [Var ''n'' kInt32 0, FloatImm (Fin 2)]
     = [Cast kFloat32 (Var ''n'' kInt32 0), FloatImm (Fin 2)]"
    using T by simp
  have w2: "list_all (\<lambda>e. dtype e = kFloat32)
      (promoteInputs [Var ''n'' kInt32 0, FloatImm (Fin 2)])"
    using T by simp
  have w3: "promoteInputs [Var ''n'' kInt32 0, IntImm 2] = [Var ''n'' kInt32 0, IntImm 2]"
    using U by simp
  have w4: "dtype (Mul (promoteInputs [Var ''n'' kInt32 0, FloatImm (Fin 2)] ! 0)
                (promoteInputs [Var ''n'' kInt32 0, FloatImm (Fin 2)] ! 1)) = kFloat32"
    using T by (simp add: arithmetic_templates_def)
  have w5: "dtype (Add (promoteInputs [Var ''n'' kInt32 0, IntImm 2, IntImm 1] ! 0)
                (Mul (promoteInputs [Var ''n'' kInt32 0, IntImm 2, IntImm 1] ! 2)
                   (promoteInputs [Var ''n'' kInt32 0, IntImm 2, IntImm 1] ! 1))) = kInt32"
    using U by (simp add: arithmetic_templates_def)
  have w6: "demoteOutput (FloatImm (Fin 2)) (node_value 9 ScalarType_Int aten_mul [])
       = Inr (Cast kInt32 (FloatImm (Fin 2)))"
    using T by (simp add: node_value_def)
  have w7: "demoteOutput (FloatImm (Fin 2)) (node_value 9 ScalarType_Float aten_mul [])
       = Inr (FloatImm (Fin 2))"
    using U by (simp add: node_value_def)
  from w1 w2 w3 w4 w5 w6 w7 show ?thesis by blast
qed

text \<open>
  The claim C5 as first stated fails on \<open>_cast_Float\<close>: its only operand is
  integer-typed and is left as it is by the promotion, and the computed expression is
  float-typed.
\<close>

theorem promotion_result_type_counterexample:
  "operands id xn_kernel (node_value 9 ScalarType_Float aten__cast_Float [int_n])
       [Var [] kInt32 0] [0]
     = Inr [FunctionCall int_n_tensor [Var [] kInt32 0]]
   \<and> dtype (FunctionCall int_n_tensor [Var [] kInt32 0]) = kInt32
   \<and> promoteInputs [FunctionCall int_n_tensor [Var [] kInt32 0]]
       = [FunctionCall int_n_tensor [Var [] kInt32 0]]
   \<and> ComputeValue id xn_kernel (node_value 9 ScalarType_Float aten__cast_Float [int_n])
       = Inr (Tensor ''aten_cast_float'' [IntImm 4] [Var [] kInt32 0]
                (Cast kFloat32 (FunctionCall int_n_tensor [Var [] kInt32 0])))
   \<and> dtype (Cast kFloat32 (FunctionCall int_n_tensor [Var [] kInt32 0])) = kFloat32"
  by code_simp

subsection \<open>The None constant\<close>

lemma operands_nth:
  "operands to_float k v axes idxs = Inr es \<Longrightarrow>
     length es = length idxs
     \<and> (\<forall>j < length idxs. idxs ! j < length (node_inputs v)
            \<and> tensorOrConstant to_float k (node_inputs v ! (idxs ! j)) axes = Inr (es ! j))"
proof (induction idxs arbitrary: es)
  case Nil
  then show ?case by simp
next
  case (Cons i idxs)
  from Cons.prems obtain x xs where es: "es = x # xs"
    and i: "i < length (node_inputs v)"
    and x: "tensorOrConstant to_float k (node_inputs v ! i) axes = Inr x"
    and xs: "operands to_float k v axes idxs = Inr xs"
    by (auto simp: input_at_def split: sum.splits if_splits)
  from Cons.IH [OF xs] have len: "length xs = length idxs"
    and ih: "\<forall>j < length idxs. idxs ! j < length (node_inputs v)
            \<and> tensorOrConstant to_float k (node_inputs v ! (idxs ! j)) axes = Inr (xs ! j)"
    by blast+
  show ?case
  proof (intro conjI allI impI)
    show "length es = length (i # idxs)" using es len by simp
  next
    fix j assume "j < length (i # idxs)"
    then show "(i # idxs) ! j < length (node_inputs v)"
      and "tensorOrConstant to_float k (node_inputs v ! ((i # idxs) ! j)) axes = Inr (es ! j)"
      using es i x ih by (cases j; simp)+
  qed
qed

lemma none_operand:
  assumes "node_kind vi = prim_Constant" and "node_ivalue vi = Some INone"
    and "tensors_k k (v_unique vi) = None"
  shows "tensorOrConstant to_float k vi axes = Inr (IntImm 0)"
  using assms by (simp add: tensorOrConstant_def constant_expr_def)

lemma promoteInputs_zero:
  assumes "j < length es" and "es ! j = IntImm 0"
  shows "promoteInputs es ! j = IntImm 0 \<or> promoteInputs es ! j = Cast kFloat32 (IntImm 0)"
  using assms by (simp add: promoteInputs_def)

text \<open>
  Claim C9. The constant builder lowers a graph constant of value \<open>None\<close> to the
  integer immediate 0 and does not fail, whereas a constant that is no double, integer
  or \<open>None\<close> fails with the unhandled-constant-datatype error. An operand read of such a
  constant is the immediate 0. In the body of every generic combinator an operand that
  is a \<open>None\<close> constant is therefore the immediate 0, after promotion the immediate 0 or
  its cast to float, and the body is the operator's expression on these operands; the
  body of \<open>slice\<close> with a start that is a \<open>None\<close> constant adds the immediate 0 to the
  strided axis.
\<close>

theorem none_constant_is_zero:
  "(node_kind vi = prim_Constant \<and> node_ivalue vi = Some INone \<longrightarrow>
      constant_expr to_float k vi = Inr (IntImm 0))
   \<and> (node_kind vi = prim_Constant \<and> node_ivalue vi = Some c
        \<and> (\<forall>d. c \<noteq> IDouble d) \<and> (\<forall>n. c \<noteq> IInt n) \<and> c \<noteq> INone \<longrightarrow>
        constant_expr to_float k vi = Inl UnhandledConstantDatatype)
   \<and> (node_kind vi = prim_Constant \<and> node_ivalue vi = Some INone
        \<and> tensors_k k (v_unique vi) = None \<longrightarrow>
        tensorOrConstant to_float k vi axes = Inr (IntImm 0))
   \<and> (operands to_float k v axes [0..<n] = Inr es \<and> j < n
        \<and> node_kind (node_inputs v ! j) = prim_Constant
        \<and> node_ivalue (node_inputs v ! j) = Some INone
        \<and> tensors_k k (v_unique (node_inputs v ! j)) = None \<longrightarrow>
        es ! j = IntImm 0
        \<and> (promoteInputs es ! j = IntImm 0 \<or> promoteInputs es ! j = Cast kFloat32 (IntImm 0))
        \<and> compute_body to_float k v n inner_expr axes
            = demoteOutput (inner_expr (promoteInputs es)) v)
   \<and> (node_inputs v = [v0, v1, v2, v3, v4]
        \<and> constant_expr to_float k v1 = Inr (IntImm d) \<and> 0 \<le> d \<and> nat d < length axes
        \<and> node_kind v2 = prim_Constant \<and> node_ivalue v2 = Some INone
        \<and> constant_expr to_float k v4 = Inr step \<longrightarrow>
        slice_body to_float k v axes
          = tensorOrConstant to_float k v0
              (axes[nat d := Add (Mul step (axes ! nat d)) (IntImm 0)]))"
proof (intro conjI impI)
  assume "node_kind vi = prim_Constant \<and> node_ivalue vi = Some INone"
  then show "constant_expr to_float k vi = Inr (IntImm 0)"
    by (simp add: constant_expr_def)
next
  assume "node_kind vi = prim_Constant \<and> node_ivalue vi = Some c
        \<and> (\<forall>d. c \<noteq> IDouble d) \<and> (\<forall>n. c \<noteq> IInt n) \<and> c \<noteq> INone"
  then show "constant_expr to_float k vi = Inl UnhandledConstantDatatype"
    by (cases c) (simp_all add: constant_expr_def)
next
  assume "node_kind vi = prim_Constant \<and> node_ivalue vi = Some INone
        \<and> tensors_k k (v_unique vi) = None"
  then show "tensorOrConstant to_float k vi axes = Inr (IntImm 0)"
    using none_operand by blast
next
  assume a: "operands to_float k v axes [0..<n] = Inr es \<and> j < n
        \<and> node_kind (node_inputs v ! j) = prim_Constant
        \<and> node_ivalue (node_inputs v ! j) = Some INone
        \<and> tensors_k k (v_unique (node_inputs v ! j)) = None"
  then have ops: "operands to_float k v axes [0..<n] = Inr es" and j: "j < n" by simp_all
  from operands_nth [OF ops] j have len: "length es = n"
    and rd: "tensorOrConstant to_float k (node_inputs v ! j) axes = Inr (es ! j)"
    by auto
  from a have "tensorOrConstant to_float k (node_inputs v ! j) axes = Inr (IntImm 0)"
    using none_operand by blast
  with rd show z: "es ! j = IntImm 0" by simp
  from j len z show "promoteInputs es ! j = IntImm 0
      \<or> promoteInputs es ! j = Cast kFloat32 (IntImm 0)"
    using promoteInputs_zero by blast
  show "compute_body to_float k v n inner_expr axes
      = demoteOutput (inner_expr (promoteInputs es)) v"
    by (simp add: compute_body_def ops bind_err_def)
next
  assume "node_inputs v = [v0, v1, v2, v3, v4]
        \<and> constant_expr to_float k v1 = Inr (IntImm d) \<and> 0 \<le> d \<and> nat d < length axes
        \<and> node_kind v2 = prim_Constant \<and> node_ivalue v2 = Some INone
        \<and> constant_expr to_float k v4 = Inr step"
  then show "slice_body to_float k v axes
          = tensorOrConstant to_float k v0
              (axes[nat d := Add (Mul step (axes ! nat d)) (IntImm 0)])"
    by (simp add: slice_body_def input_at_def bind_err_def int_imm_value_def constant_expr_def)
qed

theorem none_constant_is_zero_witness:
  "constant_expr id xn_kernel (none_const 5) = Inr (IntImm 0)
   \<and> constant_expr id xn_kernel (const_value 5 OtherType (IBool True))
       = Inl UnhandledConstantDatatype
   \<and> ComputeValue id xn_kernel (node_value 9 ScalarType_Float aten_mul [flt_x, none_const 5])
       = Inr (Tensor ''aten_mul'' [IntImm 4] [Var [] kInt32 0]
                (Mul (FunctionCall flt_x_tensor [Var [] kInt32 0]) (Cast kFloat32 (IntImm 0))))
   \<and> ComputeValue id xn_kernel (node_value 9 ScalarType_Int aten_mul [int_n, none_const 5])
       = Inr (Tensor ''aten_mul'' [IntImm 4] [Var [] kInt32 0]
                (Mul (FunctionCall int_n_tensor [Var [] kInt32 0]) (IntImm 0)))
   \<and> ComputeValue id xn_kernel
       (node_value 9 ScalarType_Int aten_mul [int_n, const_value 5 OtherType (IBool True)])
       = Inl UnhandledConstantDatatype
   \<and> ComputeValue id xn_kernel
       (node_value 9 ScalarType_Float aten_slice
          [flt_x, const_value 4 IntType (IInt 0), none_const 5, const_value 6 IntType (IInt 3),
           const_value 7 IntType (IInt 1)])
       = Inr (Tensor ''aten_slice'' [IntImm 4] [Var ''i0'' kInt32 0]
                (FunctionCall flt_x_tensor
                   [Add (Mul (IntImm 1) (Var ''i0'' kInt32 0)) (IntImm 0)]))"
proof -
  have w1: "constant_expr id xn_kernel (none_const 5) = Inr (IntImm 0)"
    using none_constant_is_zero [where vi = "none_const 5" and to_float = id and k = xn_kernel]
    by (simp add: none_const_def const_value_def)
  have w2: "constant_expr id xn_kernel (const_value 5 OtherType (IBool True))
       = Inl UnhandledConstantDatatype"
    using none_constant_is_zero
      [where vi = "const_value 5 OtherType (IBool True)" and c = "IBool True"
         and to_float = id and k = xn_kernel]
    by (simp add: const_value_def)
  have w3: "ComputeValue id xn_kernel
       (node_value 9 ScalarType_Float aten_mul [flt_x, none_const 5])
       = Inr (Tensor ''aten_mul'' [IntImm 4] [Var [] kInt32 0]
                (Mul (FunctionCall flt_x_tensor [Var [] kInt32 0]) (Cast kFloat32 (IntImm 0))))"
    by code_simp
  have w4: "ComputeValue id xn_kernel
       (node_value 9 ScalarType_Int aten_mul [int_n, none_const 5])
       = Inr (Tensor ''aten_mul'' [IntImm 4] [Var [] kInt32 0]
                (Mul (FunctionCall int_n_tensor [Var [] kInt32 0]) (IntImm 0)))"
    by code_simp
  have w5: "ComputeValue id xn_kernel
       (node_value 9 ScalarType_Int aten_mul [int_n, const_value 5 OtherType (IBool True)])
       = Inl UnhandledConstantDatatype"
    by code_simp
  have w6: "ComputeValue id xn_kernel
       (node_value 9 ScalarType_Float aten_slice
          [flt_x, const_value 4 IntType (IInt 0), none_const 5, const_value 6 IntType (IInt 3),
           const_value 7 IntType (IInt 1)])
       = Inr (Tensor ''aten_slice'' [IntImm 4] [Var ''i0'' kInt32 0]
                (FunctionCall flt_x_tensor
                   [Add (Mul (IntImm 1) (Var ''i0'' kInt32 0)) (IntImm 0)]))"
    by code_simp
  from w1 w2 w3 w4 w5 w6 show ?thesis by blast
qed

subsection \<open>The index expression of an input\<close>








subsection \<open>Concatenation\<close>

lemma cat_body_three:
  assumes ins: "node_inputs v = [list_v, dim_v]"
    and attr: "map_of (node_attrs dim_v) ''value'' = Some 0"
    and segs: "node_inputs list_v = [a, b, c]"
    and ta: "tensors_k k (v_unique a) = Some ta" "dims ta = [IntImm sa]"
    and tb: "tensors_k k (v_unique b) = Some tb" "dims tb = [IntImm sb]"
    and tc: "tensors_k k (v_unique c) = Some tc" "dims tc = [IntImm sc]"
  shows "cat_body to_float k v [i]
    = Inr (IfThenElse (CompareSelect i (IntImm (to_int32 (sa + sb))) kLT)
             (IfThenElse (CompareSelect i (IntImm (to_int32 sa)) kLT)
                (broadcast ta [i])
                (broadcast tb [Sub i (IntImm (to_int32 sa))]))
             (broadcast tc [Sub (Sub i (IntImm (to_int32 sa))) (IntImm (to_int32 (sa + sb)))]))"
  using assms
  by (simp add: cat_body_def input_at_def bind_err_def node_attr_i_def tensorOrConstant_def
      tensor_at_def bufferSizes_def)

text \<open>
  Claim C7, on the code, for three segments of constant sizes \<open>sa\<close>, \<open>sb\<close> and \<open>sc\<close>
  along the axis 0. The selects are keyed on the running offsets \<open>sa\<close> and \<open>sa + sb\<close>,
  the first segment is read at the output index \<open>i\<close> and the second at \<open>i - sa\<close>. The
  third segment is read at \<open>(i - sa) - (sa + sb)\<close>: the running offset is taken from the
  index that was shifted for the second segment already. Its value is
  \<open>i - 2 * sa - sb\<close>, which is \<open>i - (sa + sb)\<close>, the position of the element in the
  third segment, only when the first segment is empty.
\<close>

theorem cat_three_segments:
  "(node_inputs v = [list_v, dim_v] \<and> map_of (node_attrs dim_v) ''value'' = Some 0
      \<and> node_inputs list_v = [a, b, c]
      \<and> tensors_k k (v_unique a) = Some ta \<and> dims ta = [IntImm sa]
      \<and> tensors_k k (v_unique b) = Some tb \<and> dims tb = [IntImm sb]
      \<and> tensors_k k (v_unique c) = Some tc \<and> dims tc = [IntImm sc]
      \<and> 0 \<le> sa \<and> 0 \<le> sb \<and> sa + sb < 2 ^ 31 \<longrightarrow>
      cat_body to_float k v [i]
        = Inr (IfThenElse (CompareSelect i (IntImm (sa + sb)) kLT)
                 (IfThenElse (CompareSelect i (IntImm sa) kLT)
                    (broadcast ta [i])
                    (broadcast tb [Sub i (IntImm sa)]))
                 (broadcast tc [Sub (Sub i (IntImm sa)) (IntImm (sa + sb))])))
   \<and> index_value env (Sub i (IntImm sa)) = index_value env i - sa
   \<and> index_value env (Sub (Sub i (IntImm sa)) (IntImm (sa + sb)))
       = index_value env i - 2 * sa - sb
   \<and> (index_value env (Sub (Sub i (IntImm sa)) (IntImm (sa + sb)))
         = index_value env i - (sa + sb) \<longleftrightarrow> sa = 0)"
proof (intro conjI impI)
  assume h: "node_inputs v = [list_v, dim_v] \<and> map_of (node_attrs dim_v) ''value'' = Some 0
      \<and> node_inputs list_v = [a, b, c]
      \<and> tensors_k k (v_unique a) = Some ta \<and> dims ta = [IntImm sa]
      \<and> tensors_k k (v_unique b) = Some tb \<and> dims tb = [IntImm sb]
      \<and> tensors_k k (v_unique c) = Some tc \<and> dims tc = [IntImm sc]
      \<and> 0 \<le> sa \<and> 0 \<le> sb \<and> sa + sb < 2 ^ 31"
  then have "to_int32 sa = sa" and "to_int32 (sa + sb) = sa + sb"
    by (simp_all add: to_int32_id)
  with h cat_body_three [of v list_v dim_v a b c k ta sa tb sb tc sc to_float i]
  show "cat_body to_float k v [i]
        = Inr (IfThenElse (CompareSelect i (IntImm (sa + sb)) kLT)
                 (IfThenElse (CompareSelect i (IntImm sa) kLT)
                    (broadcast ta [i])
                    (broadcast tb [Sub i (IntImm sa)]))
                 (broadcast tc [Sub (Sub i (IntImm sa)) (IntImm (sa + sb))]))"
    by simp
next
  show "index_value env (Sub i (IntImm sa)) = index_value env i - sa" by simp
next
  show "index_value env (Sub (Sub i (IntImm sa)) (IntImm (sa + sb)))
       = index_value env i - 2 * sa - sb"
    by simp
next
  show "index_value env (Sub (Sub i (IntImm sa)) (IntImm (sa + sb)))
         = index_value env i - (sa + sb) \<longleftrightarrow> sa = 0"
    by simp
qed

lemma cat_kernel_tensors:
  "tensors_k cat_kernel 0 = Some (cat_tensor ''a'' 2)"
  "tensors_k cat_kernel 1 = Some (cat_tensor ''b'' 3)"
  "tensors_k cat_kernel 2 = Some (cat_tensor ''c'' 4)"
  by code_simp+

theorem cat_three_segments_witness:
  "ComputeValue id cat_kernel cat_node
     = Inr (Tensor ''aten_cat'' [IntImm 9] [Var ''i0'' kInt32 0]
         (IfThenElse (CompareSelect (Var ''i0'' kInt32 0) (IntImm 5) kLT)
            (IfThenElse (CompareSelect (Var ''i0'' kInt32 0) (IntImm 2) kLT)
               (FunctionCall (cat_tensor ''a'' 2) [Var ''i0'' kInt32 0])
               (FunctionCall (cat_tensor ''b'' 3) [Sub (Var ''i0'' kInt32 0) (IntImm 2)]))
            (FunctionCall (cat_tensor ''c'' 4)
               [Sub (Sub (Var ''i0'' kInt32 0) (IntImm 2)) (IntImm 5)])))
   \<and> cat_body id cat_kernel cat_node [Var ''i0'' kInt32 0]
     = Inr (IfThenElse (CompareSelect (Var ''i0'' kInt32 0) (IntImm 5) kLT)
              (IfThenElse (CompareSelect (Var ''i0'' kInt32 0) (IntImm 2) kLT)
                 (FunctionCall (cat_tensor ''a'' 2) [Var ''i0'' kInt32 0])
                 (FunctionCall (cat_tensor ''b'' 3) [Sub (Var ''i0'' kInt32 0) (IntImm 2)]))
              (FunctionCall (cat_tensor ''c'' 4)
                 [Sub (Sub (Var ''i0'' kInt32 0) (IntImm 2)) (IntImm 5)]))
   \<and> index_value (all_axes_at 4) (Sub (Var ''i0'' kInt32 0) (IntImm 2)) = 2
   \<and> index_value (all_axes_at 5) (Sub (Sub (Var ''i0'' kInt32 0) (IntImm 2)) (IntImm 5)) = - 2
   \<and> index_value (all_axes_at 5) (Sub (Var ''i0'' kInt32 0) (IntImm 5)) = 0"
proof -
  have w1: "ComputeValue id cat_kernel cat_node
     = Inr (Tensor ''aten_cat'' [IntImm 9] [Var ''i0'' kInt32 0]
         (IfThenElse (CompareSelect (Var ''i0'' kInt32 0) (IntImm 5) kLT)
            (IfThenElse (CompareSelect (Var ''i0'' kInt32 0) (IntImm 2) kLT)
               (FunctionCall (cat_tensor ''a'' 2) [Var ''i0'' kInt32 0])
               (FunctionCall (cat_tensor ''b'' 3) [Sub (Var ''i0'' kInt32 0) (IntImm 2)]))
            (FunctionCall (cat_tensor ''c'' 4)
               [Sub (Sub (Var ''i0'' kInt32 0) (IntImm 2)) (IntImm 5)])))"
    by code_simp
  note T = cat_three_segments
    [where v = cat_node
       and list_v = "Value 3 ''l'' ListType 0 True prim_ListConstruct
          [cat_input 0 ''a'' 2, cat_input 1 ''b'' 3, cat_input 2 ''c'' 4] None []"
       and dim_v = "Value 4 ''d'' IntType 0 True prim_Constant [] (Some (IInt 0)) [(''value'', 0)]"
       and a = "cat_input 0 ''a'' 2" and b = "cat_input 1 ''b'' 3" and c = "cat_input 2 ''c'' 4"
       and k = cat_kernel and ta = "cat_tensor ''a'' 2" and tb = "cat_tensor ''b'' 3"
       and tc = "cat_tensor ''c'' 4" and sa = 2 and sb = 3 and sc = 4 and to_float = id
       and i = "Var ''i0'' kInt32 0"]
  have w2: "cat_body id cat_kernel cat_node [Var ''i0'' kInt32 0]
     = Inr (IfThenElse (CompareSelect (Var ''i0'' kInt32 0) (IntImm 5) kLT)
              (IfThenElse (CompareSelect (Var ''i0'' kInt32 0) (IntImm 2) kLT)
                 (FunctionCall (cat_tensor ''a'' 2) [Var ''i0'' kInt32 0])
                 (FunctionCall (cat_tensor ''b'' 3) [Sub (Var ''i0'' kInt32 0) (IntImm 2)]))
              (FunctionCall (cat_tensor ''c'' 4)
                 [Sub (Sub (Var ''i0'' kInt32 0) (IntImm 2)) (IntImm 5)]))"
    using T cat_kernel_tensors
    by (simp add: cat_node_def cat_input_def cat_tensor_def broadcast_def)
  have w3: "index_value (all_axes_at 4) (Sub (Var ''i0'' kInt32 0) (IntImm 2)) = 2"
    using T [where env = "all_axes_at 4"] by (simp add: all_axes_at_def)
  have w4: "index_value (all_axes_at 5)
      (Sub (Sub (Var ''i0'' kInt32 0) (IntImm 2)) (IntImm 5)) = - 2"
    using T [where env = "all_axes_at 5"] by (simp add: all_axes_at_def)
  have w5: "index_value (all_axes_at 5) (Sub (Var ''i0'' kInt32 0) (IntImm 5)) = 0"
    by (simp add: all_axes_at_def)
  from w1 w2 w3 w4 w5 show ?thesis by blast
qed

end
